theory Spec2Isabelle
  imports Main "HOL-Library.AList"
begin

section \<open>JavaScript values\<close>

text \<open>
  The job parameters, the image manifest and the request parameters are dynamic
  JavaScript objects that arrive as JSON. They are modelled by the JSON fragment of
  the language: an object is an association list with one entry per own property,
  in insertion order. Numbers are restricted to integers.
\<close>

datatype jsval =
    JUndefined
  | JNull
  | JBool bool
  | JNum int
  | JStr string
  | JArr "jsval list"
  | JObj "(string \<times> jsval) list"

text \<open>
  Failures of the code are values. \<open>TypeError\<close> is the exception thrown by a
  property access on \<open>undefined\<close> or \<open>null\<close> and by a call of a non-function;
  \<open>AssertionError\<close> is thrown by assert-plus; \<open>CbError\<close> is an error handed
  to a callback (\<open>cb(err)\<close>, \<open>next(err)\<close>) with its message.
  \<open>Unmodelled\<close> marks an input on which the model does not describe the code
  (for example an own property that shadows a method of \<open>Object.prototype\<close>):
  no theorem about a successful result speaks about such an input.
\<close>

datatype js_error =
    TypeError
  | AssertionError
  | CbError string
  | Unmodelled

text \<open>\<open>o[k]\<close> on an object: the own property, or \<open>undefined\<close>.\<close>

definition lookup :: "(string \<times> jsval) list \<Rightarrow> string \<Rightarrow> jsval" where
  "lookup obj k = (case map_of obj k of None \<Rightarrow> JUndefined | Some v \<Rightarrow> v)"

text \<open>
  \<open>v[k]\<close> for a string key \<open>k\<close> that is not an index and not \<open>length\<close>
  (the keys the code reads): a \<open>TypeError\<close> on \<open>undefined\<close> and \<open>null\<close>,
  the own property of an object, \<open>undefined\<close> on every other JSON value.
\<close>

fun get :: "jsval \<Rightarrow> string \<Rightarrow> js_error + jsval" where
  "get JUndefined k = Inl TypeError"
| "get JNull k = Inl TypeError"
| "get (JObj obj) k = Inr (lookup obj k)"
| "get v k = Inr JUndefined"

text \<open>\<open>o[k] = v\<close> on an object: an existing property keeps its place, a new one is appended.\<close>

definition put :: "(string \<times> jsval) list \<Rightarrow> string \<Rightarrow> jsval \<Rightarrow> (string \<times> jsval) list" where
  "put obj k v = AList.update k v obj"

text \<open>\<open>delete o[k]\<close>.\<close>

definition del :: "(string \<times> jsval) list \<Rightarrow> string \<Rightarrow> (string \<times> jsval) list" where
  "del obj k = AList.delete k obj"

text \<open>Truthiness (\<open>if (v)\<close>, \<open>!v\<close>, \<open>a && b\<close>).\<close>

fun truthy :: "jsval \<Rightarrow> bool" where
  "truthy JUndefined = False"
| "truthy JNull = False"
| "truthy (JBool b) = b"
| "truthy (JNum n) = (n \<noteq> 0)"
| "truthy (JStr s) = (s \<noteq> [])"
| "truthy (JArr xs) = True"
| "truthy (JObj obj) = True"

text \<open>
  Strict equality \<open>===\<close>, which \<open>indexOf\<close> and \<open>switch\<close> use. Primitives are
  compared by value. Arrays and objects are compared by reference; two occurrences in
  JSON data are two references, so they are never equal.
\<close>

fun strict_eq :: "jsval \<Rightarrow> jsval \<Rightarrow> bool" where
  "strict_eq (JArr xs) w = False"
| "strict_eq (JObj obj) w = False"
| "strict_eq v w = (v = w)"

text \<open>\<open>xs.indexOf(v) !== -1\<close>.\<close>

definition js_includes :: "jsval list \<Rightarrow> jsval \<Rightarrow> bool" where
  "js_includes xs v = list_ex (\<lambda>x. strict_eq x v) xs"

text \<open>\<open>o.hasOwnProperty(k)\<close>: the inherited method is called unless an own property
  of that name shadows it (then a non-function of the JSON data would be called).\<close>

fun hasOwnProperty :: "jsval \<Rightarrow> string \<Rightarrow> js_error + bool" where
  "hasOwnProperty JUndefined k = Inl TypeError"
| "hasOwnProperty JNull k = Inl TypeError"
| "hasOwnProperty (JObj obj) k =
     (if map_of obj ''hasOwnProperty'' \<noteq> None then Inl Unmodelled
      else Inr (map_of obj k \<noteq> None))"
| "hasOwnProperty v k = Inl Unmodelled"

section \<open>Workflow pipelines\<close>

text \<open>
  A workflow is the object each workflow file exports: a name, a version, a chain of
  tasks, a timeout in seconds, and the \<open>onerror\<close> and \<open>oncancel\<close> chains. A task
  written in the file is an object literal with a name, an optional timeout and retry
  count, the function it runs and the modules it needs. The functions and the task
  objects that a file takes from another module (job-common, fabric-common,
  nfs-volumes, vm-migration) are named as the file names them.
\<close>

datatype body =
    validateParams_body
  | setJobAction_body
  | generatePasswords_body
  | ensureImage_body
  | preparePayload_body
  | provision_body
  | setPostBackFailed_body
  | setupRequest_body
  | on_error_function
  | common_waitTask
  | common_putVm
  | common_updateFwapi
  | common_releaseVMTicket
  | common_releaseVMTicketIgnoringErr
  | common_releaseAllocationTicket
  | common_cleanupNics
  | common_postBack
  | common_refreshVm
  | common_validateForZoneAction
  | common_updateNetworkParams
  | common_acquireVMTicket
  | common_waitOnVMTicket
  | common_zoneAction
  | common_checkUpdated
  | nfsVolumes_addVolumesReferences

datatype imported =
    fabricCommon_provisionWaitTask
  | fabricCommon_releaseFabricNatTickets
  | fabricCommon_releaseTicketTask
  | common_tasks_validateForZoneAction
  | common_tasks_acquireVMTicket
  | common_tasks_waitOnVMTicket
  | common_tasks_releaseVMTicket
  | common_tasks_releaseVMTicketIgnoringErr
  | common_tasks_acquireAllocationTicket
  | common_tasks_waitOnAllocationTicket
  | common_tasks_releaseAllocationTicket
  | common_tasks_setupForWaitTask
  | common_tasks_waitTask
  | common_tasks_waitForWorkflowJob
  | cleanupSource
  | cleanupTarget
  | migrationCommon_tasks_validate
  | migrationCommon_tasks_storeInitialRecord
  | migrationCommon_tasks_storeProcessDetails
  | migrationCommon_tasks_storeSuccess
  | migrationCommon_tasks_storeFailure
  | migrationCommon_tasks_disallowRetry
  | migrationCommon_tasks_setupCnapiSource
  | migrationCommon_tasks_setupCnapiTarget
  | migrationCommon_tasks_removeTargetZfsQuota
  | migrationCommon_tasks_removeSourceZfsQuota
  | migrationSync_tasks_sync
  | migrationSync_tasks_startSyncOrSwitchWhenAutomatic
  | migrationBegin_tasks_getSourceFilesystemDetails
  | migrationBegin_tasks_storeSourceFilesystemDetails
  | migrationBegin_tasks_createProvisionPayload
  | migrationBegin_tasks_allocateServer
  | migrationBegin_tasks_provisionVm
  | migrationBegin_tasks_setCreateTimestamp
  | migrationBegin_tasks_getTargetFilesystemDetails
  | migrationBegin_tasks_storeTargetFilesystemDetails
  | migrationBegin_tasks_startSyncWhenAutomatic
  | modSwitch_tasks_stopVm
  | modSwitch_tasks_startFinalSync
  | modSwitch_tasks_ensureVmStopped
  | modSwitch_tasks_reserveNetworkIps
  | modSwitch_tasks_storeReservedNetworkIps
  | modSwitch_tasks_getSourceCoreFilesystemSize
  | modSwitch_tasks_setupTargetFilesystem
  | modSwitch_tasks_setTargetVmAutoboot
  | modSwitch_tasks_setSourceDoNotInventory
  | modSwitch_tasks_updateVmServerUuid
  | modSwitch_tasks_removeTargetDoNotInventory
  | modSwitch_tasks_startTargetVm
  | modSwitch_tasks_unreserveNetworkIps
  | modSwitch_tasks_startSourceVm

datatype task =
    Task (task_name: string) (task_timeout: "nat option") (task_retry: "nat option")
      (task_body: body) (task_modules: "(string \<times> string) list option")
  | Imported imported

record workflow =
  wf_name :: string
  version :: string
  chain :: "task list"
  timeout :: nat
  onerror :: "task list"
  oncancel :: "task list"


subsection \<open>provision.js\<close>

text \<open>
  The exported workflow of provision.js. \<open>fabricCommon.provisionChain\<close> and
  \<open>nfsVolumes.provisionChain\<close> are task lists of other modules: the parameters
  \<open>fabric_provisionChain\<close> and \<open>nfs_provisionChain\<close>.
\<close>

definition sdc :: "(string \<times> string) list option" where
  "sdc = Some [(''sdcClients'', ''sdc-clients'')]"

definition provision_chain :: "task list \<Rightarrow> task list \<Rightarrow> task list" where
  "provision_chain fabric_provisionChain nfs_provisionChain =
     [ Task ''common.validate_params'' (Some 10) (Some 1) validateParams_body None,
       Task ''workflow.set_job_action'' (Some 10) (Some 1) setJobAction_body (Some []),
       Task ''imgapi.generate_passwords'' (Some 10) (Some 1) generatePasswords_body
         (Some [(''childProcess'', ''child_process''), (''async'', ''async'')]) ]
     @ fabric_provisionChain
     @ [ Task ''cnapi.ensure_image'' (Some 300) (Some 1) ensureImage_body sdc,
         Task ''cnapi.wait_task_ensure_image'' (Some 3600) (Some 1) common_waitTask sdc,
         Imported fabricCommon_provisionWaitTask ]
     @ nfs_provisionChain
     @ [ Task ''prepare_payload'' (Some 10) (Some 1) preparePayload_body
           (Some [(''sdcClients'', ''sdc-clients''), (''VError'', ''verror'')]),
         Task ''cnapi.provision_vm'' (Some 10) (Some 1) provision_body sdc,
         Task ''cnapi.wait_task'' (Some 3600) (Some 1) common_waitTask sdc,
         Task ''volapi.add_volumes_references'' (Some 120) (Some 1)
           nfsVolumes_addVolumesReferences
           (Some [(''sdcClients'', ''sdc-clients''), (''vasync'', ''vasync'')]),
         Task ''vmapi.put_vm'' (Some 120) (Some 1) common_putVm sdc,
         Task ''fwapi.update'' (Some 10) (Some 1) common_updateFwapi sdc,
         Task ''cnapi.release_vm_ticket'' (Some 60) (Some 1) common_releaseVMTicket sdc,
         Imported fabricCommon_releaseFabricNatTickets ]"

definition provision_onerror :: "task list" where
  "provision_onerror =
     [ Task ''napi.cleanup_nics'' (Some 10) (Some 1) common_cleanupNics
         (Some [(''sdcClients'', ''sdc-clients''), (''async'', ''async'')]),
       Task ''set_post_back_failed'' None None setPostBackFailed_body (Some []),
       Task ''common.post_back'' None None common_postBack
         (Some [(''async'', ''async''), (''restify'', ''restify''), (''urlModule'', ''url'')]),
       Task ''cnapi.cleanup_allocation_ticket'' None None common_releaseAllocationTicket sdc,
       Task ''cnapi.cleanup_vm_ticket'' None None common_releaseVMTicket sdc,
       Task ''vmapi.refresh_vm_on_error'' None None common_refreshVm
         (Some [(''restify'', ''restify'')]),
       Imported fabricCommon_releaseFabricNatTickets,
       Task ''On error'' None None on_error_function None ]"

definition provision_oncancel :: "task list" where
  "provision_oncancel =
     [ Task ''vmapi.refresh_vm'' None None common_refreshVm (Some [(''restify'', ''restify'')]),
       Task ''cnapi.cleanup_vm_ticket'' None None common_releaseVMTicket sdc,
       Task ''cnapi.cleanup_allocation_ticket'' None None common_releaseAllocationTicket sdc,
       Imported fabricCommon_releaseFabricNatTickets ]"

definition provision_workflow :: "task list \<Rightarrow> task list \<Rightarrow> workflow" where
  "provision_workflow fabric_provisionChain nfs_provisionChain =
     \<lparr> wf_name = ''provision-8.2.2'', version = ''8.2.2'',
       chain = provision_chain fabric_provisionChain nfs_provisionChain,
       timeout = 3810,
       onerror = provision_onerror,
       oncancel = provision_oncancel \<rparr>"

subsection \<open>add-nics.js\<close>

definition add_nics_chain :: "task list \<Rightarrow> task list" where
  "add_nics_chain fabric_provisionChain =
     [ Task ''common.validate_params'' (Some 10) (Some 1) common_validateForZoneAction (Some []),
       Task ''common.setup_request'' (Some 10) (Some 1) setupRequest_body (Some []) ]
     @ fabric_provisionChain
     @ [ Task ''common.update_network_params'' (Some 10) (Some 1) common_updateNetworkParams sdc,
         Task ''cnapi.acquire_vm_ticket'' (Some 10) (Some 1) common_acquireVMTicket sdc,
         Task ''cnapi.wait_on_vm_ticket'' (Some 120) (Some 1) common_waitOnVMTicket sdc,
         Imported fabricCommon_provisionWaitTask ]
     @ [ Task ''cnapi.update_vm'' (Some 10) (Some 1) common_zoneAction
           (Some [(''restify'', ''restify'')]),
         Task ''cnapi.wait_task'' (Some 120) (Some 1) common_waitTask sdc,
         Task ''vmapi.check_updated'' (Some 90) (Some 1) common_checkUpdated sdc,
         Task ''vmapi.put_vm'' (Some 60) (Some 1) common_putVm sdc,
         Task ''fwapi.update'' (Some 10) (Some 1) common_updateFwapi sdc,
         Task ''cnapi.release_vm_ticket'' (Some 60) (Some 1) common_releaseVMTicket sdc,
         Imported fabricCommon_releaseTicketTask ]"

definition add_nics_onerror :: "task list" where
  "add_nics_onerror =
     [ Task ''napi.cleanup_nics'' (Some 10) (Some 1) common_cleanupNics
         (Some [(''sdcClients'', ''sdc-clients''), (''async'', ''async'')]),
       Task ''on_error.release_vm_ticket'' None None common_releaseVMTicket sdc,
       Imported fabricCommon_releaseTicketTask,
       Task ''On error'' None None on_error_function None ]"

definition add_nics_oncancel :: "task list" where
  "add_nics_oncancel =
     [ Task ''on_cancel.release_vm_ticket'' None None common_releaseVMTicket sdc,
       Imported fabricCommon_releaseTicketTask ]"

definition add_nics_workflow :: "task list \<Rightarrow> workflow" where
  "add_nics_workflow fabric_provisionChain =
     \<lparr> wf_name = ''add-nics-7.3.0'', version = ''7.3.0'',
       chain = add_nics_chain fabric_provisionChain,
       timeout = 300,
       onerror = add_nics_onerror,
       oncancel = add_nics_oncancel \<rparr>"

subsection \<open>migrate-sync.js\<close>

definition migrate_sync_workflow :: workflow where
  "migrate_sync_workflow =
     \<lparr> wf_name = ''migrate-sync-1.0.0'', version = ''1.0.0'',
       chain = map Imported
         [ common_tasks_validateForZoneAction,
           migrationCommon_tasks_validate,
           common_tasks_acquireVMTicket,
           common_tasks_waitOnVMTicket,
           cleanupSource,
           cleanupTarget,
           migrationCommon_tasks_storeInitialRecord,
           common_tasks_releaseVMTicket,
           common_tasks_setupForWaitTask,
           migrationCommon_tasks_setupCnapiSource,
           common_tasks_waitTask,
           common_tasks_setupForWaitTask,
           migrationCommon_tasks_setupCnapiTarget,
           common_tasks_waitTask,
           migrationCommon_tasks_storeProcessDetails,
           migrationSync_tasks_sync,
           migrationCommon_tasks_storeSuccess,
           migrationSync_tasks_startSyncOrSwitchWhenAutomatic ],
       timeout = 60 * 60 * 24,
       onerror = map Imported
         [ cleanupSource, cleanupTarget, migrationCommon_tasks_storeFailure,
           common_tasks_releaseVMTicketIgnoringErr ],
       oncancel = map Imported
         [ cleanupSource, cleanupTarget, migrationCommon_tasks_storeFailure,
           common_tasks_releaseVMTicketIgnoringErr ] \<rparr>"

subsection \<open>migrate-switch.js\<close>

definition migrate_switch_workflow :: workflow where
  "migrate_switch_workflow =
     \<lparr> wf_name = ''migrate-switch-1.0.0'', version = ''1.0.0'',
       chain = map Imported
         [ common_tasks_validateForZoneAction,
           migrationCommon_tasks_validate,
           modSwitch_tasks_stopVm,
           common_tasks_waitForWorkflowJob,
           modSwitch_tasks_startFinalSync,
           common_tasks_waitForWorkflowJob,
           common_tasks_acquireVMTicket,
           common_tasks_waitOnVMTicket,
           modSwitch_tasks_ensureVmStopped,
           modSwitch_tasks_reserveNetworkIps,
           modSwitch_tasks_storeReservedNetworkIps,
           migrationCommon_tasks_storeInitialRecord,
           modSwitch_tasks_getSourceCoreFilesystemSize,
           common_tasks_waitTask,
           modSwitch_tasks_setupTargetFilesystem,
           common_tasks_waitTask,
           modSwitch_tasks_setTargetVmAutoboot,
           common_tasks_waitTask,
           modSwitch_tasks_setSourceDoNotInventory,
           common_tasks_waitTask,
           modSwitch_tasks_updateVmServerUuid,
           modSwitch_tasks_removeTargetDoNotInventory,
           common_tasks_waitTask,
           migrationCommon_tasks_storeSuccess,
           common_tasks_releaseVMTicket,
           modSwitch_tasks_startTargetVm,
           common_tasks_waitForWorkflowJob ],
       timeout = 1800,
       onerror =
         [ Imported migrationCommon_tasks_storeFailure,
           Imported modSwitch_tasks_unreserveNetworkIps,
           Imported modSwitch_tasks_startSourceVm,
           Task ''on_error.release_vm_ticket'' None None common_releaseVMTicketIgnoringErr sdc ],
       oncancel =
         [ Imported migrationCommon_tasks_storeFailure,
           Imported modSwitch_tasks_unreserveNetworkIps,
           Imported modSwitch_tasks_startSourceVm,
           Task ''on_cancel.release_vm_ticket'' None None common_releaseVMTicketIgnoringErr sdc ] \<rparr>"

subsection \<open>migrate-begin.js\<close>

definition migrate_begin_workflow :: workflow where
  "migrate_begin_workflow =
     \<lparr> wf_name = ''migrate-begin-1.0.0'', version = ''1.0.0'',
       chain = map Imported
         [ common_tasks_validateForZoneAction,
           migrationCommon_tasks_validate,
           common_tasks_setupForWaitTask,
           migrationBegin_tasks_getSourceFilesystemDetails,
           common_tasks_waitTask,
           migrationBegin_tasks_storeSourceFilesystemDetails,
           migrationBegin_tasks_createProvisionPayload,
           common_tasks_acquireAllocationTicket,
           common_tasks_waitOnAllocationTicket,
           migrationBegin_tasks_allocateServer,
           common_tasks_releaseAllocationTicket,
           common_tasks_acquireVMTicket,
           common_tasks_waitOnVMTicket,
           migrationCommon_tasks_storeInitialRecord,
           migrationCommon_tasks_disallowRetry,
           common_tasks_releaseVMTicket,
           migrationBegin_tasks_provisionVm,
           common_tasks_setupForWaitTask,
           migrationBegin_tasks_setCreateTimestamp,
           common_tasks_waitTask,
           common_tasks_setupForWaitTask,
           migrationBegin_tasks_getTargetFilesystemDetails,
           common_tasks_waitTask,
           migrationBegin_tasks_storeTargetFilesystemDetails,
           common_tasks_setupForWaitTask,
           migrationCommon_tasks_removeTargetZfsQuota,
           common_tasks_waitTask,
           common_tasks_setupForWaitTask,
           migrationCommon_tasks_removeSourceZfsQuota,
           common_tasks_waitTask,
           migrationCommon_tasks_storeSuccess,
           migrationBegin_tasks_startSyncWhenAutomatic ],
       timeout = 1200,
       onerror = map Imported
         [ migrationCommon_tasks_storeFailure,
           common_tasks_releaseAllocationTicket,
           common_tasks_releaseVMTicketIgnoringErr ],
       oncancel = map Imported
         [ migrationCommon_tasks_storeFailure,
           common_tasks_releaseAllocationTicket,
           common_tasks_releaseVMTicketIgnoringErr ] \<rparr>"

subsection \<open>What a task does to the waitlist and to NAPI\<close>

text \<open>
  The ticket functions live in job-common.js and fabric-common.js; a task is
  classified by the function or task object the workflow file names. For the
  fabric-NAT tickets provision.js names \<open>fabricCommon.releaseFabricNatTickets\<close> and
  add-nics.js names \<open>fabricCommon.releaseTicketTask\<close>, each under the comment
  "If this was a fabric nat provision, clean up the ticket".
\<close>

fun releases_vm_ticket :: "task \<Rightarrow> bool" where
  "releases_vm_ticket (Task n t r b m) =
     (b = common_releaseVMTicket \<or> b = common_releaseVMTicketIgnoringErr)"
| "releases_vm_ticket (Imported i) =
     (i = common_tasks_releaseVMTicket \<or> i = common_tasks_releaseVMTicketIgnoringErr)"

fun releases_allocation_ticket :: "task \<Rightarrow> bool" where
  "releases_allocation_ticket (Task n t r b m) = (b = common_releaseAllocationTicket)"
| "releases_allocation_ticket (Imported i) = (i = common_tasks_releaseAllocationTicket)"

fun releases_fabric_nat_tickets :: "task \<Rightarrow> bool" where
  "releases_fabric_nat_tickets (Task n t r b m) = False"
| "releases_fabric_nat_tickets (Imported i) =
     (i = fabricCommon_releaseFabricNatTickets \<or> i = fabricCommon_releaseTicketTask)"

fun acquires_allocation_ticket :: "task \<Rightarrow> bool" where
  "acquires_allocation_ticket (Task n t r b m) = False"
| "acquires_allocation_ticket (Imported i) = (i = common_tasks_acquireAllocationTicket)"

fun cleans_up_nics :: "task \<Rightarrow> bool" where
  "cleans_up_nics (Task n t r b m) = (b = common_cleanupNics)"
| "cleans_up_nics (Imported i) = False"

definition releases_ticket :: "task \<Rightarrow> bool" where
  "releases_ticket t =
     (releases_vm_ticket t \<or> releases_allocation_ticket t \<or> releases_fabric_nat_tickets t)"


section \<open>Conversion to string\<close>

definition digit :: "nat \<Rightarrow> char" where
  "digit n = ''0123456789'' ! n"

fun show_nat :: "nat \<Rightarrow> string" where
  "show_nat n =
     (if n < 10 then [digit n] else show_nat (n div 10) @ [digit (n mod 10)])"

definition show_int :: "int \<Rightarrow> string" where
  "show_int i = (if i < 0 then CHR ''-'' # show_nat (nat (- i)) else show_nat (nat i))"

text \<open>
  \<open>String(v)\<close>, as string concatenation and \<open>%s\<close> apply it. Integers print in
  decimal below \<open>10^21\<close> (above, JavaScript switches to exponent notation); an
  object prints as \<open>[object Object]\<close> unless it shadows \<open>toString\<close> or
  \<open>valueOf\<close>. Arrays are left out.
\<close>

fun to_str :: "jsval \<Rightarrow> js_error + string" where
  "to_str JUndefined = Inr ''undefined''"
| "to_str JNull = Inr ''null''"
| "to_str (JBool b) = Inr (if b then ''true'' else ''false'')"
| "to_str (JNum n) = (if \<bar>n\<bar> < 10 ^ 21 then Inr (show_int n) else Inl Unmodelled)"
| "to_str (JStr s) = Inr s"
| "to_str (JArr xs) = Inl Unmodelled"
| "to_str (JObj obj) =
     (if map_of obj ''toString'' \<noteq> None \<or> map_of obj ''valueOf'' \<noteq> None then Inl Unmodelled
      else Inr ''[object Object]'')"

text \<open>Sequencing of steps that may throw.\<close>

fun bind :: "js_error + 'a \<Rightarrow> ('a \<Rightarrow> js_error + 'b) \<Rightarrow> js_error + 'b" where
  "bind (Inl e) f = Inl e"
| "bind (Inr v) f = f v"

section \<open>The job object\<close>

text \<open>
  The job a workflow task receives: \<open>job.params\<close> is an object; the other
  properties the tasks read and write are fields, \<open>JUndefined\<close> until set.
\<close>

record job =
  uuid :: jsval
  params :: "(string \<times> jsval) list"
  markAsFailedOnError :: jsval
  postBackState :: jsval
  taskId :: jsval
  expects :: jsval
  action :: jsval
  nfsVolumesInternalMetadata :: jsval

text \<open>What a task hands to its callback: \<open>cb(err)\<close> or \<open>cb(null, message)\<close>.\<close>

type_synonym outcome = "js_error + string"

section \<open>provision.js: the task bodies\<close>

definition setJobAction :: "job \<Rightarrow> outcome \<times> job" where
  "setJobAction job = (Inr ''Action set'', job\<lparr>action := JStr ''provision''\<rparr>)"

text \<open>
  \<open>provision\<close>. \<open>cnapi_createVm server payload\<close> is the answer of CNAPI's
  \<open>createVm\<close>: an error, or the task object of the accepted provision.
\<close>

definition force_provision_failure :: "job \<Rightarrow> bool" where
  "force_provision_failure job =
     (let internal_metadata = lookup (params job) ''internal_metadata''
      in truthy internal_metadata \<and>
         (case get internal_metadata ''force_provision_failure'' of
            Inl e \<Rightarrow> False | Inr v \<Rightarrow> truthy v))"

definition provision :: "(jsval \<Rightarrow> jsval \<Rightarrow> js_error + jsval) \<Rightarrow> job \<Rightarrow> outcome \<times> job" where
  "provision cnapi_createVm job0 =
     (let job1 = job0\<lparr>params := del (params job0) ''skip_zone_action''\<rparr>;
          job2 = job1\<lparr>params := put (params job1) ''jobid'' (uuid job1)\<rparr>;
          autoboot = lookup (params job2) ''autoboot'';
          job3 = (if autoboot = JBool False \<or> autoboot = JStr ''false''
                  then job2\<lparr>expects := JStr ''stopped''\<rparr>
                  else job2\<lparr>expects := JStr ''running''\<rparr>);
          server = lookup (params job3) ''server_uuid''
      in if force_provision_failure job3
         then (Inl (CbError ''force_provision_failure set, failing''), job3)
         else
           (case cnapi_createVm server (lookup (params job3) ''payload'') of
              Inl err \<Rightarrow> (Inl err, job3)
            | Inr task \<Rightarrow>
                (case get task ''id'' of
                   Inl e \<Rightarrow> (Inl e, job3)
                 | Inr task_id \<Rightarrow>
                     (let job4 = job3\<lparr>taskId := task_id\<rparr>;
                          job5 = job4\<lparr>markAsFailedOnError := JBool False\<rparr>
                      in (case to_str task_id of
                            Inl e \<Rightarrow> (Inl e, job5)
                          | Inr s \<Rightarrow> (Inr (''Provision task: '' @ s @ '' queued!''), job5))))))"

definition setPostBackFailed :: "job \<Rightarrow> outcome \<times> job" where
  "setPostBackFailed job =
     (if markAsFailedOnError job = JBool False
      then (Inr ''markAsFailedOnError was set to false, won't set postBackState for VM'', job)
      else (Inr ''Set post back state as failed'', job\<lparr>postBackState := JStr ''failed''\<rparr>))"

text \<open>\<open>v[0]\<close>: the first element of an array, the first character of a string,
  the property \<open>0\<close> of an object.\<close>

fun index0 :: "jsval \<Rightarrow> js_error + jsval" where
  "index0 JUndefined = Inl TypeError"
| "index0 JNull = Inl TypeError"
| "index0 (JArr xs) = Inr (case xs of [] \<Rightarrow> JUndefined | x # _ \<Rightarrow> x)"
| "index0 (JStr s) = Inr (case s of [] \<Rightarrow> JUndefined | c # _ \<Rightarrow> JStr [c])"
| "index0 (JObj obj) = Inr (lookup obj ''0'')"
| "index0 v = Inr JUndefined"

definition hvm_brands :: "jsval list" where
  "hvm_brands = [JStr ''bhyve'', JStr ''kvm'']"

text \<open>The object \<open>ensurePayload\<close> that \<open>ensureImage\<close> sends to CNAPI.\<close>

definition ensurePayload :: "job \<Rightarrow> js_error + (string \<times> jsval) list" where
  "ensurePayload job =
     bind (if js_includes hvm_brands (lookup (params job) ''brand'')
           then bind (index0 (lookup (params job) ''disks'')) (\<lambda>disk.
                bind (get disk ''image_uuid'') (\<lambda>u. Inr [(''image_uuid'', u)]))
           else Inr [(''image_uuid'', lookup (params job) ''image_uuid'')])
       (\<lambda>p. Inr (if lookup (params job) ''imgapiPeers'' \<noteq> JUndefined
                  then put p ''imgapiPeers'' (lookup (params job) ''imgapiPeers'')
                  else p))"

definition ensureImage ::
  "(jsval \<Rightarrow> (string \<times> jsval) list \<Rightarrow> js_error + jsval) \<Rightarrow> job \<Rightarrow> outcome \<times> job" where
  "ensureImage cnapi_ensureImage job =
     (case ensurePayload job of
        Inl e \<Rightarrow> (Inl e, job)
      | Inr p \<Rightarrow>
          (case cnapi_ensureImage (lookup (params job) ''server_uuid'') p of
             Inl error \<Rightarrow> (Inl error, job)
           | Inr task \<Rightarrow>
               (case get task ''id'' of
                  Inl e \<Rightarrow> (Inl e, job)
                | Inr task_id \<Rightarrow> (Inr ''Ensure image task queued!'', job\<lparr>taskId := task_id\<rparr>))))"


section \<open>Tasks by the function they run\<close>

text \<open>The task is written in the workflow file and runs the given function; a task
  object imported from another module is not one of them.\<close>

fun has_body :: "body \<Rightarrow> task \<Rightarrow> bool" where
  "has_body b (Task n t r b' m) = (b' = b)"
| "has_body b (Imported i) = False"

section \<open>provision.js: generatePasswords\<close>

text \<open>\<open>stdout.toString().replace(/\n|\r/g, '')\<close>.\<close>

definition strip_newlines :: "string \<Rightarrow> string" where
  "strip_newlines s = filter (\<lambda>c. c \<noteq> CHR 0x0A \<and> c \<noteq> CHR 0x0D) s"

text \<open>
  The iterator of \<open>async.mapSeries(users, ...)\<close>, one user after the other, stopping
  at the first error. \<open>apg n\<close> is the outcome of the \<open>n\<close>-th run of
  \<open>execFile(APG_COMMAND, APG_ARGS, ...)\<close>: an error, or the standard output.
  The state is the value of \<open>job.params.internal_metadata\<close> and the number of
  runs so far.
\<close>

fun mapSeries_users ::
  "(nat \<Rightarrow> js_error + string) \<Rightarrow> jsval list \<Rightarrow> nat \<Rightarrow> jsval \<Rightarrow> js_error option \<times> jsval" where
  "mapSeries_users apg [] n im = (None, im)"
| "mapSeries_users apg (user # users) n im =
     (case bind (get user ''name'') to_str of
        Inl e \<Rightarrow> (Some e, im)
      | Inr s \<Rightarrow>
          (let name = s @ ''_pw'' in
           case im of
             JObj obj \<Rightarrow>
               if lookup obj name = JUndefined
               then (case apg n of
                       Inl err \<Rightarrow> (Some err, im)
                     | Inr stdout \<Rightarrow>
                         mapSeries_users apg users (Suc n)
                           (JObj (put obj name (JStr (strip_newlines stdout)))))
               else mapSeries_users apg users n im
           | JNull \<Rightarrow> (Some TypeError, im)
           | _ \<Rightarrow> (Some Unmodelled, im)))"

fun isArray :: "jsval \<Rightarrow> bool" where
  "isArray (JArr xs) = True"
| "isArray v = False"

fun elems :: "jsval \<Rightarrow> jsval list" where
  "elems (JArr xs) = xs"
| "elems v = []"

definition generatePasswords :: "(nat \<Rightarrow> js_error + string) \<Rightarrow> job \<Rightarrow> outcome \<times> job" where
  "generatePasswords apg job =
     (let img = lookup (params job) ''image'' in
      case get img ''generate_passwords'' of
        Inl e \<Rightarrow> (Inl e, job)
      | Inr generate_passwords \<Rightarrow>
          if generate_passwords = JBool False
          then (Inr ''No need to generate passwords for image'', job)
          else
            (case get img ''users'' of
               Inl e \<Rightarrow> (Inl e, job)
             | Inr users \<Rightarrow>
                 if users = JUndefined \<or> \<not> isArray users
                 then (Inr ''Image has generate_passwords=true but no users found'', job)
                 else
                   (let job1 = (if lookup (params job) ''internal_metadata'' = JUndefined
                                then job\<lparr>params := put (params job) ''internal_metadata'' (JObj [])\<rparr>
                                else job);
                        (err, im) = mapSeries_users apg (elems users) 0
                                      (lookup (params job1) ''internal_metadata'');
                        job2 = job1\<lparr>params := put (params job1) ''internal_metadata'' im\<rparr>
                    in case err of
                         Some e \<Rightarrow> (Inl e, job2)
                       | None \<Rightarrow> (Inr ''Passwords generated for Image'', job2))))"

section \<open>provision.js: preparePayload\<close>

definition payload_keys :: "string list" where
  "payload_keys =
     [ ''alias'', ''autoboot'', ''billing_id'', ''brand'',
       ''cpu_cap'', ''cpu_shares'', ''customer_metadata'',
       ''delegate_dataset'', ''dns_domain'', ''docker'', ''do_not_inventory'',
       ''firewall_enabled'', ''firewall_rules'', ''fs_allowed'',
       ''hostname'', ''indestructible_zoneroot'', ''indestructible_delegated'',
       ''init_name'', ''internal_metadata'', ''kernel_version'', ''limit_priv'',
       ''maintain_resolvers'', ''max_locked_memory'', ''max_lwps'', ''max_msg_ids'',
       ''max_physical_memory'', ''max_shm_memory'', ''max_sem_ids'', ''max_shm_ids'',
       ''max_swap'', ''mdata_exec_timeout'', ''nics'',
       ''owner_uuid'', ''quota'', ''ram'',
       ''resolvers'', ''vcpus'', ''zfs_data_compression'', ''zfs_io_priority'',
       ''zlog_max_size'', ''tags'', ''tmpfs'' ]"

text \<open>The kernel version of the image's tags, unless the caller gave one.\<close>

definition set_kernel_version ::
  "(string \<times> jsval) list \<Rightarrow> jsval \<Rightarrow> js_error + (string \<times> jsval) list" where
  "set_kernel_version ps img =
     bind (hasOwnProperty img ''tags'') (\<lambda>h1.
       if \<not> h1 then Inr ps
       else bind (get img ''tags'') (\<lambda>tags.
            bind (hasOwnProperty tags ''kernel_version'') (\<lambda>h2.
              if \<not> h2 then Inr ps
              else bind (hasOwnProperty (JObj ps) ''kernel_version'') (\<lambda>h3.
                   if h3 then Inr ps
                   else bind (get tags ''kernel_version'') (\<lambda>kv.
                        Inr (put ps ''kernel_version'' kv))))))"

definition set_lx_brand ::
  "(string \<times> jsval) list \<Rightarrow> jsval \<Rightarrow> js_error + (string \<times> jsval) list" where
  "set_lx_brand ps img =
     bind (get img ''type'') (\<lambda>t.
       Inr (if t = JStr ''lx-dataset'' then put ps ''brand'' (JStr ''lx'') else ps))"

text \<open>The loop over \<open>keys\<close>.\<close>

definition copy_keys ::
  "(string \<times> jsval) list \<Rightarrow> (string \<times> jsval) list \<Rightarrow> (string \<times> jsval) list" where
  "copy_keys ps payload =
     foldl (\<lambda>p key. if lookup ps key \<noteq> JUndefined then put p key (lookup ps key) else p)
       payload payload_keys"

text \<open>\<open>typeof v === 'object'\<close>.\<close>

fun typeof_object :: "jsval \<Rightarrow> bool" where
  "typeof_object JNull = True"
| "typeof_object (JArr xs) = True"
| "typeof_object (JObj obj) = True"
| "typeof_object v = False"

definition wantResolvers :: "(string \<times> jsval) list \<Rightarrow> js_error + bool" where
  "wantResolvers ps =
     (let internal_metadata = lookup ps ''internal_metadata'' in
      if internal_metadata \<noteq> JUndefined \<and> typeof_object internal_metadata
      then bind (get internal_metadata ''set_resolvers'') (\<lambda>v. Inr (v \<noteq> JBool False))
      else Inr True)"

text \<open>The values \<open>v[0], ..., v[v.length - 1]\<close> that \<open>for (i = 0; i < v.length; i++)\<close>
  visits: the elements of an array, the characters of a string, nothing where
  \<open>v.length\<close> is \<open>undefined\<close>.\<close>

fun for_elems :: "jsval \<Rightarrow> js_error + jsval list" where
  "for_elems JUndefined = Inl TypeError"
| "for_elems JNull = Inl TypeError"
| "for_elems (JArr xs) = Inr xs"
| "for_elems (JStr s) = Inr (map (\<lambda>c. JStr [c]) s)"
| "for_elems (JObj obj) = (if map_of obj ''length'' = None then Inr [] else Inl Unmodelled)"
| "for_elems v = Inr []"

text \<open>The inner loop over \<open>nic['resolvers']\<close>.\<close>

fun add_resolvers :: "jsval list \<Rightarrow> jsval list \<Rightarrow> jsval list" where
  "add_resolvers resolvers [] = resolvers"
| "add_resolvers resolvers (resolver # rest) =
     add_resolvers (if js_includes resolvers resolver then resolvers else resolvers @ [resolver]) rest"

text \<open>The properties \<open>for (var r in v)\<close> visits, with \<open>v[r]\<close>.\<close>

fun for_in :: "jsval \<Rightarrow> (string \<times> jsval) list" where
  "for_in (JObj obj) = map (\<lambda>r. (r, lookup obj r)) (map fst obj)"
| "for_in (JArr xs) = zip (map show_nat [0 ..< length xs]) xs"
| "for_in v = []"

text \<open>The loop over \<open>nic['routes']\<close>. Assigning \<open>routes['__proto__']\<close> would not
  create a property.\<close>

fun merge_routes ::
  "(string \<times> jsval) list \<Rightarrow> (string \<times> jsval) list \<Rightarrow> js_error + (string \<times> jsval) list" where
  "merge_routes routes [] = Inr routes"
| "merge_routes routes ((r, v) # rest) =
     bind (hasOwnProperty (JObj routes) r) (\<lambda>h.
       if h then merge_routes routes rest
       else if r = ''__proto__'' then Inl Unmodelled
       else merge_routes (put routes r v) rest)"

text \<open>The loop over \<open>params.nics\<close>: resolvers and routes in the order of the networks.\<close>

fun collect ::
  "jsval list \<Rightarrow> jsval list \<times> (string \<times> jsval) list
   \<Rightarrow> js_error + (jsval list \<times> (string \<times> jsval) list)" where
  "collect [] acc = Inr acc"
| "collect (nic # nics) (resolvers, routes) =
     bind (get nic ''resolvers'') (\<lambda>rs.
     bind (get nic ''routes'') (\<lambda>rt.
     bind (if rt \<noteq> JUndefined \<and> typeof_object rt then merge_routes routes (for_in rt)
           else Inr routes) (\<lambda>routes'.
       collect nics
         (if rs \<noteq> JUndefined \<and> isArray rs then add_resolvers resolvers (elems rs) else resolvers,
          routes'))))"

text \<open>The branch on the brand.\<close>

definition brand_fields ::
  "(string \<times> jsval) list \<Rightarrow> jsval \<Rightarrow> (string \<times> jsval) list \<Rightarrow> js_error + (string \<times> jsval) list" where
  "brand_fields ps img payload =
     (if js_includes hvm_brands (lookup ps ''brand'')
      then
        (let payload1 = put payload ''disks'' (lookup ps ''disks'');
             otherProps = [''disk_driver'', ''nic_driver'', ''cpu_type'']
               @ (if lookup ps ''brand'' = JStr ''bhyve'' then [''flexible_disk_size''] else [])
         in bind (foldl (\<lambda>acc field. bind acc (\<lambda>p.
                    if truthy (lookup ps field) then Inr (put p field (lookup ps field))
                    else bind (get img field) (\<lambda>v. Inr (put p field v))))
                  (Inr payload1) otherProps)
              (\<lambda>payload2. Inr (del payload2 ''quota'')))
      else
        (let payload1 = put payload ''image_uuid'' (lookup ps ''image_uuid'')
         in Inr (if lookup ps ''filesystems'' \<noteq> JUndefined
                 then put payload1 ''filesystems'' (lookup ps ''filesystems'')
                 else payload1)))"

text \<open>\<open>v[k] = w\<close> on a value: on an object it sets the property; on \<open>undefined\<close>
  and \<open>null\<close> it throws.\<close>

fun set_prop :: "jsval \<Rightarrow> string \<Rightarrow> jsval \<Rightarrow> js_error + jsval" where
  "set_prop (JObj obj) k w = Inr (JObj (put obj k w))"
| "set_prop JUndefined k w = Inl TypeError"
| "set_prop JNull k w = Inl TypeError"
| "set_prop v k w = Inl Unmodelled"

text \<open>\<open>volObj.readonly = (volObj.mode === 'ro'); delete volObj.mode\<close>.\<close>

fun eachVol :: "jsval \<Rightarrow> js_error + jsval" where
  "eachVol (JObj obj) =
     Inr (JObj (del (put obj ''readonly'' (JBool (lookup obj ''mode'' = JStr ''ro''))) ''mode''))"
| "eachVol JUndefined = Inl TypeError"
| "eachVol JNull = Inl TypeError"
| "eachVol v = Inl Unmodelled"

fun forEach_vol :: "jsval list \<Rightarrow> js_error + jsval list" where
  "forEach_vol [] = Inr []"
| "forEach_vol (v # vs) =
     bind (eachVol v) (\<lambda>v'. bind (forEach_vol vs) (\<lambda>vs'. Inr (v' # vs')))"

text \<open>
  The NFS volumes metadata. \<open>json_parse\<close> is \<open>JSON.parse\<close> (\<open>Inl\<close> the message of
  the exception it throws) and \<open>json_stringify\<close> is \<open>JSON.stringify\<close>. When the
  payload took \<open>internal_metadata\<close> from the parameters, both name one object, and
  the assignments change it for both. The result is the payload and the parameters.
\<close>

definition nfs_metadata ::
  "(jsval \<Rightarrow> string + jsval) \<Rightarrow> (jsval \<Rightarrow> jsval) \<Rightarrow> jsval \<Rightarrow> (string \<times> jsval) list
   \<Rightarrow> (string \<times> jsval) list \<Rightarrow> js_error + ((string \<times> jsval) list \<times> (string \<times> jsval) list)" where
  "nfs_metadata json_parse json_stringify nfs ps payload =
     (if nfs = JUndefined then Inr (payload, ps)
      else
        (let shared = (map_of payload ''internal_metadata'' \<noteq> None);
             im0 = (if shared then lookup payload ''internal_metadata'' else JObj [])
         in bind (if lookup ps ''docker'' = JBool True
                  then (case json_parse nfs of
                          Inl msg \<Rightarrow>
                            Inl (CbError (''Could not parse NFS volumes metadata: '' @ msg))
                        | Inr parsedNfsMetadata \<Rightarrow>
                            if \<not> isArray parsedNfsMetadata
                            then Inl (CbError ''parsed nfsvolumes is not an array'')
                            else bind (forEach_vol (elems parsedNfsMetadata)) (\<lambda>vols.
                                   set_prop im0 ''docker:nfsvolumes'' (json_stringify (JArr vols))))
                  else Inr im0) (\<lambda>im1.
            bind (set_prop im1 ''sdc:volumes'' nfs) (\<lambda>im2.
              Inr (put payload ''internal_metadata'' im2,
                   if shared then put ps ''internal_metadata'' im2 else ps)))))"

definition build_payload ::
  "(jsval \<Rightarrow> string + jsval) \<Rightarrow> (jsval \<Rightarrow> jsval) \<Rightarrow> jsval \<Rightarrow> (string \<times> jsval) list \<Rightarrow> jsval
   \<Rightarrow> js_error + ((string \<times> jsval) list \<times> (string \<times> jsval) list)" where
  "build_payload json_parse json_stringify nfs ps img =
     (let payload0 = [(''uuid'', lookup ps ''vm_uuid''), (''image'', img)];
          payload1 = copy_keys ps payload0;
          payload2 = put payload1 ''archive_on_delete'' (JBool True)
      in bind (wantResolvers ps) (\<lambda>want.
         bind (for_elems (lookup ps ''nics'')) (\<lambda>nics.
         bind (collect nics ([], [])) (\<lambda>(resolvers, routes).
           (let payload3 = (if want \<and> \<not> truthy (lookup payload2 ''resolvers'')
                            then put payload2 ''resolvers'' (JArr resolvers) else payload2);
                payload4 = (if routes \<noteq> [] then put payload3 ''routes'' (JObj routes)
                            else payload3)
            in bind (brand_fields ps img payload4) (\<lambda>payload5.
               (let payload6 = (if lookup ps ''imgapiPeers'' \<noteq> JUndefined
                                then put payload5 ''imgapiPeers'' (lookup ps ''imgapiPeers'')
                                else payload5)
                in nfs_metadata json_parse json_stringify nfs ps payload6)))))))"

definition preparePayload ::
  "(jsval \<Rightarrow> string + jsval) \<Rightarrow> (jsval \<Rightarrow> jsval) \<Rightarrow> job \<Rightarrow> outcome \<times> job" where
  "preparePayload json_parse json_stringify job =
     (let params1 = put (params job) ''jobid'' (uuid job);
          img = lookup params1 ''image''
      in case bind (set_kernel_version params1 img) (\<lambda>ps. set_lx_brand ps img) of
           Inl e \<Rightarrow> (Inl e, job\<lparr>params := params1\<rparr>)
         | Inr params2 \<Rightarrow>
             (case build_payload json_parse json_stringify (nfsVolumesInternalMetadata job)
                     params2 img of
                Inl e \<Rightarrow> (Inl e, job\<lparr>params := params2\<rparr>)
              | Inr (payload, params3) \<Rightarrow>
                  (Inr ''Payload prepared successfully'',
                   job\<lparr>params := put params3 ''payload'' (JObj payload)\<rparr>)))"

text \<open>What the loop over \<open>params.nics\<close> reads from one NIC: the elements of
  \<open>nic['resolvers']\<close> when it is an array, and the properties of \<open>nic['routes']\<close>
  when it is an object.\<close>

definition nic_resolvers :: "jsval \<Rightarrow> jsval list" where
  "nic_resolvers nic =
     (case get nic ''resolvers'' of
        Inl e \<Rightarrow> []
      | Inr rs \<Rightarrow> if rs \<noteq> JUndefined \<and> isArray rs then elems rs else [])"

definition nic_routes :: "jsval \<Rightarrow> (string \<times> jsval) list" where
  "nic_routes nic =
     (case get nic ''routes'' of
        Inl e \<Rightarrow> []
      | Inr rt \<Rightarrow> if rt \<noteq> JUndefined \<and> typeof_object rt then for_in rt else [])"

text \<open>
  Following the words of the specification, for comparison with the code: a list
  "in order, with duplicates removed" keeps each value at its first occurrence.
\<close>

definition first_occurrences :: "'a list \<Rightarrow> 'a list" where
  "first_occurrences xs = rev (remdups (rev xs))"

text \<open>A primitive value: not an array, not an object.\<close>

fun primitive :: "jsval \<Rightarrow> bool" where
  "primitive (JArr xs) = False"
| "primitive (JObj obj) = False"
| "primitive v = True"

section \<open>errors.js\<close>

text \<open>
  A REST error as its constructor builds it: the options handed to
  \<open>restify.RestError\<close> (or \<open>restify.ServiceUnavailableError\<close>), and the name on
  the prototype. \<open>this.constructor.restCode\<close> and \<open>this.constructor.statusCode\<close>
  are the properties set on the constructor below it.
\<close>

record rest_error =
  err_name :: string
  restCode :: string
  statusCode :: nat
  message :: string
  body_of :: "(string \<times> jsval) list"

text \<open>\<open>assert.string\<close>, \<open>assert.number\<close>, \<open>assert.optionalNumber\<close>,
  \<open>assert.arrayOfObject\<close> of assert-plus.\<close>

fun is_string :: "jsval \<Rightarrow> bool" where
  "is_string (JStr s) = True"
| "is_string v = False"

fun str_of :: "jsval \<Rightarrow> string" where
  "str_of (JStr s) = s"
| "str_of v = []"

fun is_number :: "jsval \<Rightarrow> bool" where
  "is_number (JNum n) = True"
| "is_number v = False"

fun is_object :: "jsval \<Rightarrow> bool" where
  "is_object (JObj obj) = True"
| "is_object (JArr xs) = True"
| "is_object v = False"

definition arrayOfObject :: "jsval \<Rightarrow> bool" where
  "arrayOfObject v = (isArray v \<and> list_all is_object (elems v))"

definition UnallocatedVMError :: "jsval \<Rightarrow> js_error + rest_error" where
  "UnallocatedVMError msg =
     (if \<not> is_string msg then Inl AssertionError
      else Inr \<lparr> err_name = ''UnallocatedVMError'', restCode = ''UnallocatedVM'',
                 statusCode = 409, message = str_of msg,
                 body_of = [(''code'', JStr ''UnallocatedVM''), (''message'', msg)] \<rparr>)"

definition VmNotRunningError :: rest_error where
  "VmNotRunningError =
     \<lparr> err_name = ''VmNotRunningError'', restCode = ''VmNotRunning'',
       statusCode = 409, message = ''VM not running'',
       body_of = [(''code'', JStr ''VmNotRunning''), (''message'', JStr ''VM not running'')] \<rparr>"

definition VmNotStoppedError :: rest_error where
  "VmNotStoppedError =
     \<lparr> err_name = ''VmNotStoppedError'', restCode = ''VmNotStopped'',
       statusCode = 409, message = ''VM not stopped'',
       body_of = [(''code'', JStr ''VmNotStopped''), (''message'', JStr ''VM not stopped'')] \<rparr>"

definition VmWithoutFlexibleDiskSizeError :: rest_error where
  "VmWithoutFlexibleDiskSizeError =
     \<lparr> err_name = ''VmWithoutFlexibleDiskSizeError'', restCode = ''VmWithoutFlexibleDiskSize'',
       statusCode = 409, message = ''VM does not have flexible disk sizing enabled'',
       body_of = [(''code'', JStr ''VmWithoutFlexibleDiskSize''),
                  (''message'', JStr ''VM does not have flexible disk sizing enabled'')] \<rparr>"

definition InsufficientDiskSpaceError :: rest_error where
  "InsufficientDiskSpaceError =
     \<lparr> err_name = ''InsufficientDiskSpaceError'', restCode = ''InsufficientDiskSpace'',
       statusCode = 409, message = ''VM does not have sufficient free disk'',
       body_of = [(''code'', JStr ''InsufficientDiskSpace''),
                  (''message'', JStr ''VM does not have sufficient free disk'')] \<rparr>"

definition BrandNotSupportedError :: "jsval \<Rightarrow> js_error + rest_error" where
  "BrandNotSupportedError msg =
     (if \<not> is_string msg then Inl AssertionError
      else Inr \<lparr> err_name = ''BrandNotSupportedError'', restCode = ''BrandNotSupported'',
                 statusCode = 409, message = str_of msg,
                 body_of = [(''code'', JStr ''BrandNotSupported''), (''message'', msg)] \<rparr>)"

definition ValidationFailedError :: "jsval \<Rightarrow> jsval \<Rightarrow> js_error + rest_error" where
  "ValidationFailedError msg errors =
     (if \<not> is_string msg then Inl AssertionError
      else if \<not> arrayOfObject errors then Inl AssertionError
      else Inr \<lparr> err_name = ''ValidationFailedError'', restCode = ''ValidationFailed'',
                 statusCode = 409, message = str_of msg,
                 body_of = [(''code'', JStr ''ValidationFailed''), (''message'', msg),
                            (''errors'', errors)] \<rparr>)"

text \<open>The elements of an \<open>errors\<close> array. \<open>a || b\<close> is \<open>b\<close> when \<open>a\<close> is falsy.\<close>

definition or_else :: "jsval \<Rightarrow> jsval \<Rightarrow> jsval" where
  "or_else a b = (if truthy a then a else b)"

definition invalidUuidErrorsElem :: "jsval \<Rightarrow> jsval \<Rightarrow> jsval" where
  "invalidUuidErrorsElem field msg =
     JObj [(''field'', or_else field (JStr ''uuid'')), (''code'', JStr ''Invalid''),
           (''message'', or_else msg (JStr ''Invalid UUID''))]"

definition invalidParamErrorsElem :: "jsval \<Rightarrow> jsval \<Rightarrow> js_error + jsval" where
  "invalidParamErrorsElem field msg =
     (if \<not> is_string field then Inl AssertionError
      else Inr (JObj [(''field'', field), (''code'', JStr ''Invalid''),
                      (''message'', or_else msg (JStr ''Invalid parameter''))]))"

definition insufficientCapacityErrorsElem :: "jsval \<Rightarrow> jsval \<Rightarrow> js_error + jsval" where
  "insufficientCapacityErrorsElem field msg =
     (if \<not> is_string field then Inl AssertionError
      else Inr (JObj [(''field'', field), (''code'', JStr ''InsufficientCapacity''),
                      (''message'', or_else msg (JStr ''Invalid Capacity''))]))"

definition duplicateParamErrorsElem :: "jsval \<Rightarrow> jsval \<Rightarrow> js_error + jsval" where
  "duplicateParamErrorsElem field msg =
     (if \<not> is_string field then Inl AssertionError
      else Inr (JObj [(''field'', field), (''code'', JStr ''Duplicate''),
                      (''message'', or_else msg (JStr ''Already exists''))]))"

definition missingParamErrorsElem :: "jsval \<Rightarrow> jsval \<Rightarrow> js_error + jsval" where
  "missingParamErrorsElem field msg =
     (if \<not> is_string field then Inl AssertionError
      else (let obj = [(''field'', field), (''code'', JStr ''MissingParameter'')]
            in Inr (JObj (if truthy msg then put obj ''message'' msg else obj))))"

definition conflictingParamsErrorsElem :: "jsval \<Rightarrow> jsval \<Rightarrow> js_error + jsval" where
  "conflictingParamsErrorsElem fs msg =
     (if \<not> (isArray fs \<and> list_all is_string (elems fs)) then Inl AssertionError
      else (let obj = [(''fields'', fs), (''code'', JStr ''ConflictingParameters'')]
            in Inr (JObj (if truthy msg then put obj ''message'' msg else obj))))"

text \<open>\<open>MorayBucketsNotSetupError\<close>: \<open>assert.optionalObject\<close> lets \<open>undefined\<close> and
  objects pass (\<open>null\<close>, which some versions of assert-plus accept, is left out).\<close>

definition MorayBucketsNotSetupError :: "jsval \<Rightarrow> js_error + rest_error" where
  "MorayBucketsNotSetupError lastInitError =
     (if lastInitError = JNull then Inl Unmodelled
      else if \<not> (lastInitError = JUndefined \<or> is_object lastInitError) then Inl AssertionError
      else bind (if truthy lastInitError
                 then bind (to_str lastInitError) (\<lambda>s.
                        Inr (''Moray buckets are not setup'' @ '', last buckets setup error: '' @ s))
                 else Inr ''Moray buckets are not setup'') (\<lambda>msg.
             Inr \<lparr> err_name = ''MorayBucketsNotSetupError'', restCode = ''MorayBucketsNotSetup'',
                    statusCode = 503, message = msg,
                    body_of = [(''code'', JStr ''MorayBucketsNotSetup''), (''message'', JStr msg),
                               (''lastInitError'', lastInitError)] \<rparr>))"

definition DataVersionError :: "jsval \<Rightarrow> jsval \<Rightarrow> jsval \<Rightarrow> jsval \<Rightarrow> js_error + rest_error" where
  "DataVersionError modelName requiredVer actualVer featureDesc =
     (if \<not> is_string modelName then Inl AssertionError
      else if \<not> is_number requiredVer then Inl AssertionError
      else if actualVer = JNull then Inl Unmodelled
      else if \<not> (actualVer = JUndefined \<or> is_number actualVer) then Inl AssertionError
      else if \<not> is_string featureDesc then Inl AssertionError
      else bind (to_str requiredVer) (\<lambda>required.
           bind (to_str actualVer) (\<lambda>actual.
             (let msg = ''Data for model '' @ str_of modelName @ '' not at required version '' @
                        required @ '' to support '' @ str_of featureDesc @ ''. Current data '' @
                        ''version is: '' @ actual
              in Inr \<lparr> err_name = ''DataVersionError'', restCode = ''DataVersion'',
                        statusCode = 503, message = msg,
                        body_of = [(''code'', JStr ''DataVersion''), (''message'', JStr msg)] \<rparr>))))"

definition VolumesNotReachableError :: "jsval \<Rightarrow> js_error + rest_error" where
  "VolumesNotReachableError errors =
     (if \<not> arrayOfObject errors then Inl AssertionError
      else Inr \<lparr> err_name = ''VolumesNotReachableError'', restCode = ''VolumesNotReachable'',
                 statusCode = 409, message = ''Volumes not reachable from VM'',
                 body_of = [(''code'', JStr ''VolumesNotReachable''),
                            (''message'', JStr ''Volumes not reachable from VM''),
                            (''errors'', errors)] \<rparr>)"

text \<open>The shapes of an error body: the keys, in order.\<close>

definition body_keys :: "rest_error \<Rightarrow> string list" where
  "body_keys e = map fst (body_of e)"

section \<open>The VM endpoints (src/unnamed/part_000)\<close>

text \<open>
  A restify handler gets the request and the response and ends by calling
  \<open>next()\<close> (the chain goes on), \<open>next(err)\<close> (the chain stops and the error is
  the response) or nothing (the chain stops). The request carries \<open>req.params\<close>,
  \<open>req.vm\<close>, \<open>req.juuid\<close> and the cache behind \<open>req.cache\<close>.
\<close>

datatype handler_error =
    MissingParameterError string
  | InvalidArgumentError string
  | Collaborator string
  | Thrown js_error

datatype next_call = Next | NextErr handler_error | Stopped

datatype response =
    NoResponse
  | Sent nat jsval
  | Streamed nat "(string \<times> string) list" bool

record request =
  req_params :: "(string \<times> jsval) list"
  vm :: jsval
  juuid :: jsval
  cache :: "(jsval \<times> jsval) list"

text \<open>
  The collaborators the handlers call: the workflow API client \<open>req.wfapi\<close> (each
  job creation answers with an error or the job's uuid), the helpers of
  \<open>common\<close>, and \<open>req.ufds\<close>.
\<close>

record collaborators =
  createStartJob :: "request \<Rightarrow> handler_error + jsval"
  createStopJob :: "request \<Rightarrow> handler_error + jsval"
  createRebootJob :: "request \<Rightarrow> handler_error + jsval"
  createUpdateJob :: "request \<Rightarrow> (string \<times> jsval) list \<Rightarrow> handler_error + jsval"
  createDestroyJob :: "request \<Rightarrow> handler_error + jsval"
  createProvisionJob :: "request \<Rightarrow> handler_error + (jsval \<times> jsval)"
  pipeJob :: "jsval \<Rightarrow> handler_error option"
  validateUpdate :: "(string \<times> jsval) list \<Rightarrow> handler_error + (string \<times> jsval) list"
  validateVm :: "(string \<times> jsval) list \<Rightarrow> handler_error option"
  setDefaultValues :: "(string \<times> jsval) list \<Rightarrow> (string \<times> jsval) list"
  translateVm :: "(string \<times> jsval) list \<Rightarrow> jsval"

definition VALID_VM_ACTIONS :: "jsval list" where
  "VALID_VM_ACTIONS = [JStr ''start'', JStr ''stop'', JStr ''reboot'', JStr ''update'']"

definition validAction :: "jsval \<Rightarrow> bool" where
  "validAction act = js_includes VALID_VM_ACTIONS act"

text \<open>A handler that creates a job: \<open>next(err)\<close>, or \<open>req.juuid = juuid; next()\<close>.\<close>

definition job_created :: "handler_error + jsval \<Rightarrow> request \<Rightarrow> response
    \<Rightarrow> next_call \<times> request \<times> response" where
  "job_created answer req res =
     (case answer of
        Inl err \<Rightarrow> (NextErr err, req, res)
      | Inr j \<Rightarrow> (Next, req\<lparr>juuid := j\<rparr>, res))"

definition startVm :: "collaborators \<Rightarrow> request \<Rightarrow> response \<Rightarrow> next_call \<times> request \<times> response" where
  "startVm c req res = job_created (createStartJob c req) req res"

definition stopVm :: "collaborators \<Rightarrow> request \<Rightarrow> response \<Rightarrow> next_call \<times> request \<times> response" where
  "stopVm c req res = job_created (createStopJob c req) req res"

definition rebootVm :: "collaborators \<Rightarrow> request \<Rightarrow> response \<Rightarrow> next_call \<times> request \<times> response" where
  "rebootVm c req res = job_created (createRebootJob c req) req res"

definition changeVm :: "collaborators \<Rightarrow> request \<Rightarrow> response \<Rightarrow> next_call \<times> request \<times> response" where
  "changeVm c req res =
     (case validateUpdate c (req_params req) of
        Inl e \<Rightarrow> (NextErr e, req, res)
      | Inr ps \<Rightarrow> job_created (createUpdateJob c req ps) req res)"

definition deleteVm :: "collaborators \<Rightarrow> request \<Rightarrow> response \<Rightarrow> next_call \<times> request \<times> response" where
  "deleteVm c req res = job_created (createDestroyJob c req) req res"

text \<open>The message \<open>'%s is not a valid action'\<close> with \<open>req.params.action\<close>.\<close>

definition not_a_valid_action :: "jsval \<Rightarrow> handler_error" where
  "not_a_valid_action act =
     (case to_str act of
        Inl e \<Rightarrow> Thrown e
      | Inr s \<Rightarrow> InvalidArgumentError (s @ '' is not a valid action''))"

text \<open>\<open>updateVm\<close>. The \<open>default\<close> branch of the \<open>switch\<close> calls \<open>next\<close> with the
  error and goes on to call the undefined \<open>method\<close>.\<close>

definition updateVm :: "collaborators \<Rightarrow> request \<Rightarrow> response \<Rightarrow> next_call \<times> request \<times> response" where
  "updateVm c req res =
     (let act = lookup (req_params req) ''action'' in
      if \<not> truthy act then (NextErr (MissingParameterError ''action is required''), req, res)
      else if \<not> validAction act then (NextErr (not_a_valid_action act), req, res)
      else if strict_eq act (JStr ''start'') then startVm c req res
      else if strict_eq act (JStr ''stop'') then stopVm c req res
      else if strict_eq act (JStr ''reboot'') then rebootVm c req res
      else if strict_eq act (JStr ''update'') then changeVm c req res
      else (NextErr (Thrown TypeError), req, res))"

text \<open>\<open>v == 'true'\<close>.\<close>

fun loose_eq_true :: "jsval \<Rightarrow> js_error + bool" where
  "loose_eq_true (JStr s) = Inr (s = ''true'')"
| "loose_eq_true (JArr xs) = Inl Unmodelled"
| "loose_eq_true (JObj obj) = bind (to_str (JObj obj)) (\<lambda>s. Inr (s = ''true''))"
| "loose_eq_true v = Inr False"

definition streamResponse ::
  "collaborators \<Rightarrow> request \<Rightarrow> response \<Rightarrow> next_call \<times> request \<times> response" where
  "streamResponse c req res =
     (let sync = lookup (req_params req) ''sync'' in
      case (if truthy sync then loose_eq_true sync else Inr False) of
        Inl e \<Rightarrow> (NextErr (Thrown e), req, res)
      | Inr True \<Rightarrow>
          (case pipeJob c (juuid req) of
             Some err \<Rightarrow>
               (NextErr err, req, Streamed 200 [(''content-type'', ''application/json'')] False)
           | None \<Rightarrow> (Next, req, Streamed 200 [(''content-type'', ''application/json'')] True))
      | Inr False \<Rightarrow>
          (case get (vm req) ''uuid'' of
             Inl e \<Rightarrow> (NextErr (Thrown e), req, res)
           | Inr vm_uuid \<Rightarrow>
               (Next, req, Sent 200 (JObj [(''vm_uuid'', vm_uuid), (''job_uuid'', juuid req)]))))"

text \<open>\<open>markAsDestroyed\<close> tells UFDS and logs the outcome; it never calls \<open>next\<close>.\<close>

definition markAsDestroyed :: "request \<Rightarrow> response \<Rightarrow> next_call \<times> request \<times> response" where
  "markAsDestroyed req res = (Stopped, req, res)"

definition createVm :: "collaborators \<Rightarrow> request \<Rightarrow> response \<Rightarrow> next_call \<times> request \<times> response" where
  "createVm c req res =
     (case validateVm c (req_params req) of
        Some error \<Rightarrow> (NextErr error, req, res)
      | None \<Rightarrow>
          (let req1 = req\<lparr>req_params := setDefaultValues c (req_params req)\<rparr> in
           case createProvisionJob c req1 of
             Inl err \<Rightarrow> (NextErr err, req1, res)
           | Inr (vmuuid, j) \<Rightarrow>
               (let req2 = req1\<lparr>req_params :=
                             put (put (req_params req1) ''state'' (JStr ''provisioning''))
                               ''uuid'' vmuuid\<rparr>;
                    v = translateVm c (req_params req2)
                in case get v ''uuid'' of
                     Inl e \<Rightarrow> (NextErr (Thrown e), req2, res)
                   | Inr vm_uuid \<Rightarrow>
                       (Next, req2\<lparr>cache := (vm_uuid, v) # cache req2\<rparr>,
                        Sent 201 (JObj [(''vm_uuid'', vm_uuid), (''job_uuid'', j)])))))"

text \<open>A route runs its handlers in order until one does not call \<open>next()\<close>.\<close>

fun run_chain ::
  "(request \<Rightarrow> response \<Rightarrow> next_call \<times> request \<times> response) list \<Rightarrow> request \<Rightarrow> response
   \<Rightarrow> next_call \<times> request \<times> response" where
  "run_chain [] req res = (Next, req, res)"
| "run_chain (h # hs) req res =
     (case h req res of
        (Next, req', res') \<Rightarrow> run_chain hs req' res'
      | stop \<Rightarrow> stop)"

text \<open>The routes of \<open>mount\<close>, after the handlers of \<open>before\<close>.\<close>

definition CreateVm_route :: "collaborators \<Rightarrow> request \<Rightarrow> response \<Rightarrow> next_call \<times> request \<times> response" where
  "CreateVm_route c = run_chain [createVm c]"

definition DeleteVm_route :: "collaborators \<Rightarrow> request \<Rightarrow> response \<Rightarrow> next_call \<times> request \<times> response" where
  "DeleteVm_route c = run_chain [deleteVm c, streamResponse c, markAsDestroyed]"

definition UpdateVm_route :: "collaborators \<Rightarrow> request \<Rightarrow> response \<Rightarrow> next_call \<times> request \<times> response" where
  "UpdateVm_route c = run_chain [updateVm c, streamResponse c]"

text \<open>The status of the HTTP response. The status of a restify error is restify's:
  409 for \<open>MissingParameterError\<close> and for \<open>InvalidArgumentError\<close>; the status of a
  collaborator's error is the collaborator's, and a thrown exception has none here.\<close>

fun http_status :: "next_call \<times> request \<times> response \<Rightarrow> nat option" where
  "http_status (NextErr (MissingParameterError m), req, res) = Some 409"
| "http_status (NextErr (InvalidArgumentError m), req, res) = Some 409"
| "http_status (NextErr e, req, res) = None"
| "http_status (n, req, Sent status b) = Some status"
| "http_status (n, req, Streamed status h d) = Some status"
| "http_status (n, req, NoResponse) = None"

text \<open>The request with \<open>req.params.action\<close> set.\<close>

definition with_action :: "string \<Rightarrow> request \<Rightarrow> request" where
  "with_action a req = req\<lparr>req_params := put (req_params req) ''action'' (JStr a)\<rparr>"

text \<open>The body \<open>{code, message}\<close> of an error.\<close>

definition code_message :: "rest_error \<Rightarrow> (string \<times> jsval) list" where
  "code_message e = [(''code'', JStr (restCode e)), (''message'', JStr (message e))]"

section \<open>Concrete jobs and requests\<close>

text \<open>A job as the workflow runner hands it to the first task: only \<open>uuid\<close> and
  \<open>params\<close> are set.\<close>

definition new_job :: "(string \<times> jsval) list \<Rightarrow> job" where
  "new_job ps =
     \<lparr> uuid = JStr ''job-1'', params = ps,
       markAsFailedOnError = JUndefined, postBackState = JUndefined, taskId = JUndefined,
       expects = JUndefined, action = JUndefined, nfsVolumesInternalMetadata = JUndefined \<rparr>"

text \<open>CNAPI accepts every \<open>createVm\<close> and answers with the task \<open>task-1\<close>.\<close>

definition cnapi_accepts :: "jsval \<Rightarrow> jsval \<Rightarrow> js_error + jsval" where
  "cnapi_accepts server payload = Inr (JObj [(''id'', JStr ''task-1'')])"

definition zone_job :: job where
  "zone_job =
     new_job [(''vm_uuid'', JStr ''vm-1''), (''server_uuid'', JStr ''cn-1''),
              (''brand'', JStr ''joyent-minimal'')]"

text \<open>The job after \<open>cnapi.provision_vm\<close> has run and CNAPI has accepted the provision.\<close>

text \<open>The same provision with \<open>internal_metadata.force_provision_failure\<close> set.\<close>

definition forced_job :: job where
  "forced_job =
     new_job [(''vm_uuid'', JStr ''vm-1''), (''server_uuid'', JStr ''cn-1''),
              (''brand'', JStr ''joyent-minimal''),
              (''internal_metadata'', JObj [(''force_provision_failure'', JBool True)])]"

definition zone_job_started :: job where
  "zone_job_started = snd (provision cnapi_accepts zone_job)"

text \<open>Collaborators that accept every request: validation passes, every job is
  created, with the uuid \<open>job-7\<close>, and a provision gets the VM uuid \<open>vm-7\<close>.\<close>

definition accepting :: collaborators where
  "accepting =
     \<lparr> createStartJob = (\<lambda>req. Inr (JStr ''job-7'')),
       createStopJob = (\<lambda>req. Inr (JStr ''job-7'')),
       createRebootJob = (\<lambda>req. Inr (JStr ''job-7'')),
       createUpdateJob = (\<lambda>req ps. Inr (JStr ''job-7'')),
       createDestroyJob = (\<lambda>req. Inr (JStr ''job-7'')),
       createProvisionJob = (\<lambda>req. Inr (JStr ''vm-7'', JStr ''job-7'')),
       pipeJob = (\<lambda>j. None),
       validateUpdate = (\<lambda>ps. Inr ps),
       validateVm = (\<lambda>ps. None),
       setDefaultValues = (\<lambda>ps. ps),
       translateVm = (\<lambda>ps. JObj ps) \<rparr>"

text \<open>\<open>POST /vms\<close> with a provision record; \<open>POST /vms/vm-1\<close> and
  \<open>DELETE /vms/vm-1\<close> on an existing VM.\<close>

definition create_request :: request where
  "create_request =
     \<lparr> req_params = [(''owner_uuid'', JStr ''owner-1''), (''brand'', JStr ''joyent-minimal''),
                      (''ram'', JNum 64)],
       vm = JUndefined, juuid = JUndefined, cache = [] \<rparr>"

definition vm_request :: "(string \<times> jsval) list \<Rightarrow> request" where
  "vm_request ps =
     \<lparr> req_params = (''uuid'', JStr ''vm-1'') # ps,
       vm = JObj [(''uuid'', JStr ''vm-1''), (''state'', JStr ''running'')],
       juuid = JUndefined, cache = [] \<rparr>"

text \<open>The error of a failed bucket setup.\<close>

definition bucket_setup_error :: jsval where
  "bucket_setup_error = JObj [(''name'', JStr ''NoDatabasePeersError'')]"

text \<open>A provision whose image declares the users \<open>root\<close> and \<open>admin\<close> and no
  \<open>generate_passwords\<close>, for which the caller gave \<open>admin_pw\<close>; the job after the
  passwords have been generated; a provision whose image has
  \<open>generate_passwords = false\<close>.\<close>

definition password_job :: job where
  "password_job =
     new_job [(''vm_uuid'', JStr ''vm-1''),
              (''image'', JObj [(''users'', JArr [JObj [(''name'', JStr ''root'')],
                                                   JObj [(''name'', JStr ''admin'')]])]),
              (''internal_metadata'', JObj [(''admin_pw'', JStr ''given-by-caller'')])]"

definition password_job_done :: job where
  "password_job_done =
     new_job [(''vm_uuid'', JStr ''vm-1''),
              (''image'', JObj [(''users'', JArr [JObj [(''name'', JStr ''root'')],
                                                   JObj [(''name'', JStr ''admin'')]])]),
              (''internal_metadata'', JObj [(''admin_pw'', JStr ''given-by-caller''),
                                            (''root_pw'', JStr ''u9Wq2xLm4TzA'')])]"

definition no_passwords_job :: job where
  "no_passwords_job =
     new_job [(''vm_uuid'', JStr ''vm-1''),
              (''image'', JObj [(''generate_passwords'', JBool False),
                                (''users'', JArr [JObj [(''name'', JStr ''root'')]])])]"

text \<open>A password generator that prints a password and a newline, and one that fails.\<close>

definition apg_fresh :: "nat \<Rightarrow> js_error + string" where
  "apg_fresh n = Inr (''u9Wq2xLm4TzA'' @ [CHR 0x0A])"

definition apg_fails :: "nat \<Rightarrow> js_error + string" where
  "apg_fails n = Inl (CbError ''spawn /opt/local/bin/apg ENOENT'')"

text \<open>\<open>JSON.parse\<close> and \<open>JSON.stringify\<close> for jobs without NFS volumes, where
  neither is called.\<close>

definition json_parse_fails :: "jsval \<Rightarrow> string + jsval" where
  "json_parse_fails v = Inl ''Unexpected token''"

definition json_stringify_text :: "jsval \<Rightarrow> jsval" where
  "json_stringify_text v = JStr ''[]''"

text \<open>Two NICs, with a resolver and a route in common.\<close>

definition nic_admin :: jsval where
  "nic_admin =
     JObj [(''mac'', JStr ''90:b8:d0:00:00:01''),
           (''resolvers'', JArr [JStr ''8.8.8.8'', JStr ''1.1.1.1'']),
           (''routes'', JObj [(''10.0.0.0/8'', JStr ''10.0.0.1''),
                              (''172.16.0.0/12'', JStr ''10.0.0.2'')])]"

definition nic_external :: jsval where
  "nic_external =
     JObj [(''mac'', JStr ''90:b8:d0:00:00:03''),
           (''resolvers'', JArr [JStr ''1.1.1.1'', JStr ''9.9.9.9'']),
           (''routes'', JObj [(''10.0.0.0/8'', JStr ''192.168.0.1''),
                              (''192.168.0.0/16'', JStr ''192.168.0.2'')])]"

text \<open>A zone on both NICs; the same with \<open>set_resolvers = false\<close>; the same with
  resolvers given by the caller; a kvm VM with two disks; a job with brand kvm whose
  image is an lx-dataset.\<close>

definition two_nics_job :: job where
  "two_nics_job =
     new_job [(''vm_uuid'', JStr ''vm-1''), (''brand'', JStr ''joyent-minimal''),
              (''image_uuid'', JStr ''img-1''), (''quota'', JNum 10),
              (''filesystems'', JArr [JObj [(''source'', JStr ''/manatee''),
                                            (''target'', JStr ''/data'')]]),
              (''image'', JObj [(''uuid'', JStr ''img-1''), (''type'', JStr ''zone-dataset'')]),
              (''nics'', JArr [nic_admin, nic_external])]"

definition no_resolvers_job :: job where
  "no_resolvers_job =
     new_job [(''vm_uuid'', JStr ''vm-1''), (''brand'', JStr ''joyent-minimal''),
              (''image_uuid'', JStr ''img-1''), (''quota'', JNum 10),
              (''image'', JObj [(''uuid'', JStr ''img-1''), (''type'', JStr ''zone-dataset'')]),
              (''internal_metadata'', JObj [(''set_resolvers'', JBool False)]),
              (''nics'', JArr [nic_admin, nic_external])]"

definition explicit_resolvers_job :: job where
  "explicit_resolvers_job =
     new_job [(''vm_uuid'', JStr ''vm-1''), (''brand'', JStr ''joyent-minimal''),
              (''image_uuid'', JStr ''img-1''), (''quota'', JNum 10),
              (''resolvers'', JArr [JStr ''4.4.4.4'']),
              (''image'', JObj [(''uuid'', JStr ''img-1''), (''type'', JStr ''zone-dataset'')]),
              (''nics'', JArr [nic_admin, nic_external])]"

definition kvm_job :: job where
  "kvm_job =
     new_job [(''vm_uuid'', JStr ''vm-1''), (''brand'', JStr ''kvm''), (''quota'', JNum 10),
              (''disks'', JArr [JObj [(''image_uuid'', JStr ''img-2'')],
                                JObj [(''size'', JNum 10240)]]),
              (''image'', JObj [(''uuid'', JStr ''img-2''), (''type'', JStr ''zvol'')]),
              (''nics'', JArr [nic_admin])]"

text \<open>A provision of brand kvm, with its disks, whose image is an lx-dataset. It has
  the \<open>owner_uuid\<close> and the \<open>brand\<close> that \<open>validateParams\<close> asks for.\<close>

definition kvm_lx_job :: job where
  "kvm_lx_job =
     new_job [(''vm_uuid'', JStr ''vm-1''), (''owner_uuid'', JStr ''owner-1''),
              (''server_uuid'', JStr ''cn-1''), (''brand'', JStr ''kvm''), (''quota'', JNum 10),
              (''disks'', JArr [JObj [(''image_uuid'', JStr ''img-3'')],
                                JObj [(''size'', JNum 10240)]]),
              (''image'', JObj [(''uuid'', JStr ''img-3''), (''type'', JStr ''lx-dataset'')]),
              (''nics'', JArr [nic_admin])]"

section \<open>Properties of objects\<close>

lemma lookup_put: "lookup (put ps k v) k' = (if k' = k then v else lookup ps k')"
  by (simp add: lookup_def put_def update_conv')

lemma lookup_del: "lookup (del ps k) k' = (if k' = k then JUndefined else lookup ps k')"
  by (simp add: lookup_def del_def delete_conv')

section \<open>Ticket release in the pipelines\<close>

lemma provision_releases:
  "list_ex releases_vm_ticket (chain (provision_workflow fc nc))
   \<and> list_ex releases_fabric_nat_tickets (chain (provision_workflow fc nc))
   \<and> list_ex releases_vm_ticket (onerror (provision_workflow fc nc))
   \<and> list_ex releases_allocation_ticket (onerror (provision_workflow fc nc))
   \<and> list_ex releases_fabric_nat_tickets (onerror (provision_workflow fc nc))
   \<and> list_ex releases_vm_ticket (oncancel (provision_workflow fc nc))
   \<and> list_ex releases_allocation_ticket (oncancel (provision_workflow fc nc))
   \<and> list_ex releases_fabric_nat_tickets (oncancel (provision_workflow fc nc))"
  by (simp add: provision_workflow_def provision_chain_def provision_onerror_def
      provision_oncancel_def)

lemma add_nics_releases:
  "list_ex releases_vm_ticket (chain (add_nics_workflow fc))
   \<and> list_ex releases_fabric_nat_tickets (chain (add_nics_workflow fc))
   \<and> list_ex releases_vm_ticket (onerror (add_nics_workflow fc))
   \<and> list_ex releases_fabric_nat_tickets (onerror (add_nics_workflow fc))
   \<and> list_ex releases_vm_ticket (oncancel (add_nics_workflow fc))
   \<and> list_ex releases_fabric_nat_tickets (oncancel (add_nics_workflow fc))"
  by (simp add: add_nics_workflow_def add_nics_chain_def add_nics_onerror_def
      add_nics_oncancel_def)

lemma migrate_begin_releases:
  "list_ex acquires_allocation_ticket (chain migrate_begin_workflow)
   \<and> list_ex releases_vm_ticket (chain migrate_begin_workflow)
   \<and> list_ex releases_allocation_ticket (chain migrate_begin_workflow)
   \<and> list_ex releases_vm_ticket (onerror migrate_begin_workflow)
   \<and> list_ex releases_allocation_ticket (onerror migrate_begin_workflow)
   \<and> list_ex releases_vm_ticket (oncancel migrate_begin_workflow)
   \<and> list_ex releases_allocation_ticket (oncancel migrate_begin_workflow)"
  by (simp add: migrate_begin_workflow_def)

lemma migrate_sync_releases:
  "\<not> list_ex acquires_allocation_ticket (chain migrate_sync_workflow)
   \<and> list_ex releases_vm_ticket (chain migrate_sync_workflow)
   \<and> list_ex releases_vm_ticket (onerror migrate_sync_workflow)
   \<and> list_ex releases_vm_ticket (oncancel migrate_sync_workflow)"
  by (simp add: migrate_sync_workflow_def)

lemma migrate_switch_releases:
  "\<not> list_ex acquires_allocation_ticket (chain migrate_switch_workflow)
   \<and> list_ex releases_vm_ticket (chain migrate_switch_workflow)
   \<and> list_ex releases_vm_ticket (onerror migrate_switch_workflow)
   \<and> list_ex releases_vm_ticket (oncancel migrate_switch_workflow)"
  by (simp add: migrate_switch_workflow_def)

text \<open>
  C2. In each of the five pipelines (provision, add-nics, migrate-begin, migrate-sync,
  migrate-switch) the \<open>onerror\<close> chain and the \<open>oncancel\<close> chain both contain a task
  that releases the per-VM ticket, as the main chain does for the success path.
  provision and add-nics, which run the fabric-NAT chain, also release the fabric-NAT
  tickets in all three; provision and migrate-begin also release the allocation
  ticket in \<open>onerror\<close> and \<open>oncancel\<close> (migrate-begin acquires one and releases it
  in its main chain too); migrate-sync and migrate-switch acquire no allocation
  ticket. \<open>fc\<close> and \<open>nc\<close> are \<open>fabricCommon.provisionChain\<close> and
  \<open>nfsVolumes.provisionChain\<close>, whatever tasks they hold.
\<close>

theorem tickets_released_on_every_path:
  "(list_ex releases_vm_ticket (chain (provision_workflow fc nc))
    \<and> list_ex releases_fabric_nat_tickets (chain (provision_workflow fc nc))
    \<and> list_ex releases_vm_ticket (onerror (provision_workflow fc nc))
    \<and> list_ex releases_allocation_ticket (onerror (provision_workflow fc nc))
    \<and> list_ex releases_fabric_nat_tickets (onerror (provision_workflow fc nc))
    \<and> list_ex releases_vm_ticket (oncancel (provision_workflow fc nc))
    \<and> list_ex releases_allocation_ticket (oncancel (provision_workflow fc nc))
    \<and> list_ex releases_fabric_nat_tickets (oncancel (provision_workflow fc nc)))
   \<and> (list_ex releases_vm_ticket (chain (add_nics_workflow fc))
    \<and> list_ex releases_fabric_nat_tickets (chain (add_nics_workflow fc))
    \<and> list_ex releases_vm_ticket (onerror (add_nics_workflow fc))
    \<and> list_ex releases_fabric_nat_tickets (onerror (add_nics_workflow fc))
    \<and> list_ex releases_vm_ticket (oncancel (add_nics_workflow fc))
    \<and> list_ex releases_fabric_nat_tickets (oncancel (add_nics_workflow fc)))
   \<and> (list_ex acquires_allocation_ticket (chain migrate_begin_workflow)
    \<and> list_ex releases_vm_ticket (chain migrate_begin_workflow)
    \<and> list_ex releases_allocation_ticket (chain migrate_begin_workflow)
    \<and> list_ex releases_vm_ticket (onerror migrate_begin_workflow)
    \<and> list_ex releases_allocation_ticket (onerror migrate_begin_workflow)
    \<and> list_ex releases_vm_ticket (oncancel migrate_begin_workflow)
    \<and> list_ex releases_allocation_ticket (oncancel migrate_begin_workflow))
   \<and> (\<not> list_ex acquires_allocation_ticket (chain migrate_sync_workflow)
    \<and> list_ex releases_vm_ticket (chain migrate_sync_workflow)
    \<and> list_ex releases_vm_ticket (onerror migrate_sync_workflow)
    \<and> list_ex releases_vm_ticket (oncancel migrate_sync_workflow))
   \<and> (\<not> list_ex acquires_allocation_ticket (chain migrate_switch_workflow)
    \<and> list_ex releases_vm_ticket (chain migrate_switch_workflow)
    \<and> list_ex releases_vm_ticket (onerror migrate_switch_workflow)
    \<and> list_ex releases_vm_ticket (oncancel migrate_switch_workflow))"
  using provision_releases [of fc nc] add_nics_releases [of fc] migrate_begin_releases
    migrate_sync_releases migrate_switch_releases
  by blast

section \<open>The add-nics pipeline on cancel\<close>

text \<open>
  C9. The \<open>oncancel\<close> chain of the add-nics workflow is the two ticket-release tasks
  (the per-VM ticket, the fabric-NAT tickets) and nothing else: no task of it runs
  \<open>common.cleanupNics\<close>. The NIC cleanup is the first task of \<open>onerror\<close>, and the
  main chain holds no cleanup task beyond what \<open>fabricCommon.provisionChain\<close>
  (\<open>fc\<close>) may bring.
\<close>

theorem add_nics_oncancel_no_nic_cleanup:
  "oncancel (add_nics_workflow fc) =
     [ Task ''on_cancel.release_vm_ticket'' None None common_releaseVMTicket
         (Some [(''sdcClients'', ''sdc-clients'')]),
       Imported fabricCommon_releaseTicketTask ]
   \<and> list_all releases_ticket (oncancel (add_nics_workflow fc))
   \<and> \<not> list_ex cleans_up_nics (oncancel (add_nics_workflow fc))
   \<and> cleans_up_nics (hd (onerror (add_nics_workflow fc)))
   \<and> list_ex cleans_up_nics (chain (add_nics_workflow fc)) = list_ex cleans_up_nics fc"
  by (simp add: add_nics_workflow_def add_nics_chain_def add_nics_onerror_def
      add_nics_oncancel_def releases_ticket_def sdc_def)

section \<open>The point of no return of a provision\<close>

lemma setPostBackFailed_state:
  "postBackState (snd (setPostBackFailed job)) =
     (if markAsFailedOnError job = JBool False then postBackState job else JStr ''failed'')"
  by (simp add: setPostBackFailed_def)

lemma setPostBackFailed_skips:
  "markAsFailedOnError job = JBool False \<Longrightarrow> snd (setPostBackFailed job) = job"
  by (simp add: setPostBackFailed_def)

lemma force_provision_failure_params:
  "lookup (params j') ''internal_metadata'' = lookup (params j) ''internal_metadata''
   \<Longrightarrow> force_provision_failure j' = force_provision_failure j"
  by (simp add: force_provision_failure_def)

lemma force_provision_failure_step:
  "force_provision_failure
     (job\<lparr>params := put (del (params job) ''skip_zone_action'') ''jobid'' u, expects := e\<rparr>)
   = force_provision_failure job"
  by (rule force_provision_failure_params) (simp add: lookup_put lookup_del)

lemma provision_accepted:
  assumes "\<not> force_provision_failure job"
      and "cnapi (lookup (params job) ''server_uuid'') (lookup (params job) ''payload'') = Inr task"
      and "get task ''id'' = Inr tid"
  shows "markAsFailedOnError (snd (provision cnapi job)) = JBool False"
    and "taskId (snd (provision cnapi job)) = tid"
    and "postBackState (snd (provision cnapi job)) = postBackState job"
  using assms
  by (simp_all add: provision_def Let_def force_provision_failure_step lookup_put lookup_del
      split: sum.splits)

lemma provision_refused:
  assumes "force_provision_failure job
           \<or> cnapi (lookup (params job) ''server_uuid'') (lookup (params job) ''payload'') = Inl err"
  shows "markAsFailedOnError (snd (provision cnapi job)) = markAsFailedOnError job"
  using assms
  by (auto simp add: provision_def Let_def force_provision_failure_step lookup_put lookup_del
      split: sum.splits)

text \<open>
  C4. When the \<open>provision\<close> task reaches CNAPI (no forced failure) and CNAPI accepts
  \<open>createVm\<close>, answering with a task, the job leaves the task with
  \<open>markAsFailedOnError = false\<close>; \<open>setPostBackFailed\<close>, run on that job by the error
  branch, leaves \<open>postBackState\<close> as it was. In general \<open>setPostBackFailed\<close> changes
  nothing when the flag is \<open>false\<close> and sets \<open>postBackState = 'failed'\<close> otherwise.
  When CNAPI is not reached or refuses, \<open>provision\<close> leaves the flag as it was.
\<close>

theorem provision_point_of_no_return:
  "(\<not> force_provision_failure job
      \<and> cnapi (lookup (params job) ''server_uuid'') (lookup (params job) ''payload'') = Inr task
      \<and> get task ''id'' = Inr tid
    \<longrightarrow> markAsFailedOnError (snd (provision cnapi job)) = JBool False
        \<and> postBackState (snd (setPostBackFailed (snd (provision cnapi job)))) = postBackState job)
   \<and> (force_provision_failure job
      \<or> cnapi (lookup (params job) ''server_uuid'') (lookup (params job) ''payload'') = Inl err
    \<longrightarrow> markAsFailedOnError (snd (provision cnapi job)) = markAsFailedOnError job)
   \<and> (markAsFailedOnError j = JBool False \<longrightarrow> snd (setPostBackFailed j) = j)
   \<and> (markAsFailedOnError j \<noteq> JBool False
        \<longrightarrow> postBackState (snd (setPostBackFailed j)) = JStr ''failed'')"
proof (intro conjI impI)
  assume a: "\<not> force_provision_failure job
      \<and> cnapi (lookup (params job) ''server_uuid'') (lookup (params job) ''payload'') = Inr task
      \<and> get task ''id'' = Inr tid"
  then show flag: "markAsFailedOnError (snd (provision cnapi job)) = JBool False"
    using provision_accepted(1) [of job cnapi task tid] by simp
  from a have "postBackState (snd (provision cnapi job)) = postBackState job"
    using provision_accepted(3) [of job cnapi task tid] by simp
  with flag show "postBackState (snd (setPostBackFailed (snd (provision cnapi job))))
      = postBackState job"
    by (simp add: setPostBackFailed_state)
next
  assume "force_provision_failure job
      \<or> cnapi (lookup (params job) ''server_uuid'') (lookup (params job) ''payload'') = Inl err"
  then show "markAsFailedOnError (snd (provision cnapi job)) = markAsFailedOnError job"
    by (rule provision_refused)
next
  assume "markAsFailedOnError j = JBool False"
  then show "snd (setPostBackFailed j) = j" by (rule setPostBackFailed_skips)
next
  assume "markAsFailedOnError j \<noteq> JBool False"
  then show "postBackState (snd (setPostBackFailed j)) = JStr ''failed''"
    by (simp add: setPostBackFailed_state)
qed

lemma zone_job_not_forced: "\<not> force_provision_failure zone_job"
  by (simp add: force_provision_failure_def zone_job_def new_job_def lookup_def)

theorem provision_point_of_no_return_witness:
  "\<not> force_provision_failure zone_job
   \<and> cnapi_accepts (lookup (params zone_job) ''server_uuid'') (lookup (params zone_job) ''payload'')
       = Inr (JObj [(''id'', JStr ''task-1'')])
   \<and> markAsFailedOnError (snd (provision cnapi_accepts zone_job)) = JBool False
   \<and> postBackState (snd (setPostBackFailed (snd (provision cnapi_accepts zone_job)))) = JUndefined
   \<and> force_provision_failure forced_job
   \<and> markAsFailedOnError (snd (provision cnapi_accepts forced_job)) = JUndefined
   \<and> markAsFailedOnError zone_job \<noteq> JBool False
   \<and> postBackState (snd (setPostBackFailed zone_job)) = JStr ''failed''
   \<and> snd (setPostBackFailed zone_job_started) = zone_job_started"
proof -
  have acc: "cnapi_accepts (lookup (params zone_job) ''server_uuid'')
      (lookup (params zone_job) ''payload'') = Inr (JObj [(''id'', JStr ''task-1'')])"
    by (simp add: cnapi_accepts_def)
  have tid: "get (JObj [(''id'', JStr ''task-1'')]) ''id'' = Inr (JStr ''task-1'')"
    by (simp add: lookup_def)
  have undef: "postBackState zone_job = JUndefined" "markAsFailedOnError zone_job \<noteq> JBool False"
    by (simp_all add: zone_job_def new_job_def)
  have forced: "force_provision_failure forced_job"
    and unset: "markAsFailedOnError forced_job = JUndefined"
    by (simp_all add: force_provision_failure_def forced_job_def new_job_def lookup_def)
  note t1 = provision_point_of_no_return [of zone_job cnapi_accepts
      "JObj [(''id'', JStr ''task-1'')]" "JStr ''task-1''" undefined zone_job]
  note t2 = provision_point_of_no_return [of zone_job cnapi_accepts
      "JObj [(''id'', JStr ''task-1'')]" "JStr ''task-1''" undefined zone_job_started]
  note t3 = provision_point_of_no_return [of forced_job cnapi_accepts undefined undefined
      undefined zone_job]
  have kept: "postBackState (snd (provision cnapi_accepts zone_job)) = JUndefined"
    using provision_accepted(3) [of zone_job cnapi_accepts "JObj [(''id'', JStr ''task-1'')]"
        "JStr ''task-1''"] zone_job_not_forced acc tid undef by simp
  from t1 t2 t3 zone_job_not_forced acc tid undef kept forced unset show ?thesis
    by (simp add: zone_job_started_def)
qed
section \<open>The error branch of provision and add-nics\<close>

text \<open>
  What the two workflow files fix about the error branch. The first task of
  \<open>onerror\<close>, in the provision and in the add-nics workflow, is
  \<open>napi.cleanup_nics\<close>, which runs \<open>common.cleanupNics\<close>. The provision workflow
  runs \<open>set_post_back_failed\<close> next; the \<open>onerror\<close> chain of add-nics holds no task
  that runs \<open>setPostBackFailed\<close> or \<open>common.postBack\<close>. What the cleanup removes
  from NAPI, and which state \<open>common.postBack\<close> and \<open>common.refreshVm\<close> give the
  VM, is code of job-common.js.
\<close>

lemma onerror_heads:
  "hd (onerror (provision_workflow fc nc)) =
     Task ''napi.cleanup_nics'' (Some 10) (Some 1) common_cleanupNics
       (Some [(''sdcClients'', ''sdc-clients''), (''async'', ''async'')])"
  "hd (onerror (add_nics_workflow fc)) =
     Task ''napi.cleanup_nics'' (Some 10) (Some 1) common_cleanupNics
       (Some [(''sdcClients'', ''sdc-clients''), (''async'', ''async'')])"
  "onerror (provision_workflow fc nc) ! 1 =
     Task ''set_post_back_failed'' None None setPostBackFailed_body (Some [])"
  "\<not> list_ex (has_body setPostBackFailed_body) (onerror (add_nics_workflow fc))"
  "\<not> list_ex (has_body common_postBack) (onerror (add_nics_workflow fc))"
  by (simp_all add: provision_workflow_def provision_onerror_def add_nics_workflow_def
      add_nics_onerror_def)

section \<open>The responses of the VM endpoints\<close>

lemma createVm_response:
  "snd (snd (createVm c req res)) = res
   \<or> (\<exists>b. snd (snd (createVm c req res)) = Sent 201 b)"
  by (simp add: createVm_def Let_def split: option.splits sum.splits prod.splits)

lemma streamResponse_response:
  "snd (snd (streamResponse c req res)) = res
   \<or> (\<exists>b. snd (snd (streamResponse c req res)) = Sent 200 b)
   \<or> (\<exists>h d. snd (snd (streamResponse c req res)) = Streamed 200 h d)"
  by (auto simp add: streamResponse_def Let_def split: option.splits sum.splits bool.splits)

text \<open>
  C1 on the code: an accepted \<open>POST /vms\<close> is answered with status 201, and an
  accepted \<open>POST /vms/:uuid\<close> or \<open>DELETE /vms/:uuid\<close> with status 200 (by
  \<open>streamResponse\<close>), each with the body \<open>{vm_uuid, job_uuid}\<close>; neither handler
  ever sends the status 202.
\<close>

theorem accepted_mutations_status:
  "CreateVm_route accepting create_request NoResponse =
     (Next,
      create_request\<lparr>req_params := req_params create_request
                        @ [(''state'', JStr ''provisioning''), (''uuid'', JStr ''vm-7'')],
                     cache := [(JStr ''vm-7'',
                        JObj (req_params create_request
                          @ [(''state'', JStr ''provisioning''), (''uuid'', JStr ''vm-7'')]))]\<rparr>,
      Sent 201 (JObj [(''vm_uuid'', JStr ''vm-7''), (''job_uuid'', JStr ''job-7'')]))
   \<and> snd (snd (UpdateVm_route accepting (vm_request [(''action'', JStr ''stop'')]) NoResponse)) =
      Sent 200 (JObj [(''vm_uuid'', JStr ''vm-1''), (''job_uuid'', JStr ''job-7'')])
   \<and> snd (snd (DeleteVm_route accepting (vm_request []) NoResponse)) =
      Sent 200 (JObj [(''vm_uuid'', JStr ''vm-1''), (''job_uuid'', JStr ''job-7'')])
   \<and> (\<forall>c req b. snd (snd (createVm c req NoResponse)) \<noteq> Sent 202 b)
   \<and> (\<forall>c req b. snd (snd (streamResponse c req NoResponse)) \<noteq> Sent 202 b)"
proof (intro conjI allI)
  show "CreateVm_route accepting create_request NoResponse =
     (Next,
      create_request\<lparr>req_params := req_params create_request
                        @ [(''state'', JStr ''provisioning''), (''uuid'', JStr ''vm-7'')],
                     cache := [(JStr ''vm-7'',
                        JObj (req_params create_request
                          @ [(''state'', JStr ''provisioning''), (''uuid'', JStr ''vm-7'')]))]\<rparr>,
      Sent 201 (JObj [(''vm_uuid'', JStr ''vm-7''), (''job_uuid'', JStr ''job-7'')]))"
    by (simp add: CreateVm_route_def createVm_def accepting_def create_request_def Let_def
        put_def lookup_def)
  show "snd (snd (UpdateVm_route accepting (vm_request [(''action'', JStr ''stop'')]) NoResponse)) =
      Sent 200 (JObj [(''vm_uuid'', JStr ''vm-1''), (''job_uuid'', JStr ''job-7'')])"
    by (simp add: UpdateVm_route_def updateVm_def validAction_def VALID_VM_ACTIONS_def
        js_includes_def stopVm_def job_created_def streamResponse_def accepting_def
        vm_request_def Let_def lookup_def)
  show "snd (snd (DeleteVm_route accepting (vm_request []) NoResponse)) =
      Sent 200 (JObj [(''vm_uuid'', JStr ''vm-1''), (''job_uuid'', JStr ''job-7'')])"
    by (simp add: DeleteVm_route_def deleteVm_def job_created_def streamResponse_def
        markAsDestroyed_def accepting_def vm_request_def Let_def lookup_def)
next
  fix c req b
  show "snd (snd (createVm c req NoResponse)) \<noteq> Sent 202 b"
    using createVm_response [of c req NoResponse] by auto
  show "snd (snd (streamResponse c req NoResponse)) \<noteq> Sent 202 b"
    using streamResponse_response [of c req NoResponse] by auto
qed

section \<open>The actions of \<open>POST /vms/:uuid\<close>\<close>

lemma action_of_with_action: "lookup (req_params (with_action a req)) ''action'' = JStr a"
  by (simp add: with_action_def lookup_put)

lemma updateVm_rejects:
  "a \<noteq> [] \<Longrightarrow> a \<notin> {''start'', ''stop'', ''reboot'', ''update''}
   \<Longrightarrow> updateVm c (with_action a req) res =
       (NextErr (InvalidArgumentError (a @ '' is not a valid action'')), with_action a req, res)"
  by (auto simp add: updateVm_def Let_def action_of_with_action validAction_def
      VALID_VM_ACTIONS_def js_includes_def not_a_valid_action_def)

lemma updateVm_dispatches:
  "updateVm c (with_action ''start'' req) res = startVm c (with_action ''start'' req) res"
  "updateVm c (with_action ''stop'' req) res = stopVm c (with_action ''stop'' req) res"
  "updateVm c (with_action ''reboot'' req) res = rebootVm c (with_action ''reboot'' req) res"
  "updateVm c (with_action ''update'' req) res = changeVm c (with_action ''update'' req) res"
  by (simp_all add: updateVm_def Let_def action_of_with_action validAction_def
      VALID_VM_ACTIONS_def js_includes_def)

lemma updateVm_missing_action:
  "\<not> truthy (lookup (req_params req) ''action'')
   \<Longrightarrow> updateVm c req res = (NextErr (MissingParameterError ''action is required''), req, res)"
  by (simp add: updateVm_def Let_def)

text \<open>
  C5 on the code: \<open>updateVm\<close> knows the four actions start, stop, reboot and update.
  Each of add_nics, remove_nics, create_snapshot, rollback_snapshot, delete_snapshot,
  reprovision and migrate is refused with an \<open>InvalidArgumentError\<close> (status 409), and
  no job-creating handler runs.
\<close>

theorem updateVm_refuses_seven_actions:
  "updateVm c (with_action ''add_nics'' req) res =
     (NextErr (InvalidArgumentError ''add_nics is not a valid action''),
      with_action ''add_nics'' req, res)
   \<and> updateVm c (with_action ''remove_nics'' req) res =
     (NextErr (InvalidArgumentError ''remove_nics is not a valid action''),
      with_action ''remove_nics'' req, res)
   \<and> updateVm c (with_action ''create_snapshot'' req) res =
     (NextErr (InvalidArgumentError ''create_snapshot is not a valid action''),
      with_action ''create_snapshot'' req, res)
   \<and> updateVm c (with_action ''rollback_snapshot'' req) res =
     (NextErr (InvalidArgumentError ''rollback_snapshot is not a valid action''),
      with_action ''rollback_snapshot'' req, res)
   \<and> updateVm c (with_action ''delete_snapshot'' req) res =
     (NextErr (InvalidArgumentError ''delete_snapshot is not a valid action''),
      with_action ''delete_snapshot'' req, res)
   \<and> updateVm c (with_action ''reprovision'' req) res =
     (NextErr (InvalidArgumentError ''reprovision is not a valid action''),
      with_action ''reprovision'' req, res)
   \<and> updateVm c (with_action ''migrate'' req) res =
     (NextErr (InvalidArgumentError ''migrate is not a valid action''),
      with_action ''migrate'' req, res)
   \<and> http_status (UpdateVm_route c (with_action ''add_nics'' req) res) = Some 409"
  by (simp add: updateVm_rejects UpdateVm_route_def)

section \<open>The REST errors\<close>

lemma message_errors_409:
  "UnallocatedVMError m = Inr e
   \<Longrightarrow> statusCode e = 409 \<and> restCode e = ''UnallocatedVM'' \<and> body_of e = code_message e"
  "BrandNotSupportedError m = Inr e
   \<Longrightarrow> statusCode e = 409 \<and> restCode e = ''BrandNotSupported'' \<and> body_of e = code_message e"
  by (cases m; auto simp: UnallocatedVMError_def BrandNotSupportedError_def code_message_def)+

lemma fixed_errors_409:
  "statusCode VmNotRunningError = 409 \<and> restCode VmNotRunningError = ''VmNotRunning''
   \<and> body_of VmNotRunningError = code_message VmNotRunningError"
  "statusCode VmNotStoppedError = 409 \<and> restCode VmNotStoppedError = ''VmNotStopped''
   \<and> body_of VmNotStoppedError = code_message VmNotStoppedError"
  "statusCode VmWithoutFlexibleDiskSizeError = 409
   \<and> restCode VmWithoutFlexibleDiskSizeError = ''VmWithoutFlexibleDiskSize''
   \<and> body_of VmWithoutFlexibleDiskSizeError = code_message VmWithoutFlexibleDiskSizeError"
  "statusCode InsufficientDiskSpaceError = 409
   \<and> restCode InsufficientDiskSpaceError = ''InsufficientDiskSpace''
   \<and> body_of InsufficientDiskSpaceError = code_message InsufficientDiskSpaceError"
  by (simp_all add: VmNotRunningError_def VmNotStoppedError_def
      VmWithoutFlexibleDiskSizeError_def InsufficientDiskSpaceError_def code_message_def)

lemma validation_failed_409:
  "ValidationFailedError m errs = Inr e
   \<Longrightarrow> statusCode e = 409 \<and> restCode e = ''ValidationFailed''
       \<and> body_of e = code_message e @ [(''errors'', errs)] \<and> arrayOfObject errs"
  by (cases m) (auto simp: ValidationFailedError_def code_message_def split: if_splits)

lemma buckets_not_setup_503:
  "MorayBucketsNotSetupError l = Inr e
   \<Longrightarrow> statusCode e = 503 \<and> restCode e = ''MorayBucketsNotSetup''
       \<and> body_of e = code_message e @ [(''lastInitError'', l)]"
  by (cases "to_str l")
     (auto simp: MorayBucketsNotSetupError_def code_message_def split: if_splits)

lemma data_version_503:
  "DataVersionError a b c d = Inr e
   \<Longrightarrow> statusCode e = 503 \<and> restCode e = ''DataVersion'' \<and> body_of e = code_message e"
  by (cases "to_str b"; cases "to_str c")
     (auto simp: DataVersionError_def code_message_def Let_def split: if_splits)

text \<open>
  C8, as the code has it. Every error of the taxonomy carries the body's \<open>code\<close>
  equal to its REST code and the body's \<open>message\<close> equal to its message.
  UnallocatedVM, VmNotRunning, VmNotStopped, BrandNotSupported,
  VmWithoutFlexibleDiskSize and InsufficientDiskSpace have status 409 and the body
  \<open>{code, message}\<close>; ValidationFailed has status 409 and the body
  \<open>{code, message, errors}\<close>, where \<open>errors\<close> is the array of objects the caller
  gave (an element built by \<open>missingParamErrorsElem\<close> without a message is
  \<open>{field, code}\<close>); DataVersion has status 503 and the body \<open>{code, message}\<close>;
  MorayBucketsNotSetup has status 503 and the body
  \<open>{code, message, lastInitError}\<close>.
\<close>

theorem error_status_and_body:
  "(UnallocatedVMError m = Inr e1
      \<longrightarrow> statusCode e1 = 409 \<and> restCode e1 = ''UnallocatedVM'' \<and> body_of e1 = code_message e1)
   \<and> (BrandNotSupportedError m = Inr e2
      \<longrightarrow> statusCode e2 = 409 \<and> restCode e2 = ''BrandNotSupported''
        \<and> body_of e2 = code_message e2)
   \<and> (statusCode VmNotRunningError = 409 \<and> restCode VmNotRunningError = ''VmNotRunning''
      \<and> body_of VmNotRunningError = code_message VmNotRunningError)
   \<and> (statusCode VmNotStoppedError = 409 \<and> restCode VmNotStoppedError = ''VmNotStopped''
      \<and> body_of VmNotStoppedError = code_message VmNotStoppedError)
   \<and> (statusCode VmWithoutFlexibleDiskSizeError = 409
      \<and> restCode VmWithoutFlexibleDiskSizeError = ''VmWithoutFlexibleDiskSize''
      \<and> body_of VmWithoutFlexibleDiskSizeError = code_message VmWithoutFlexibleDiskSizeError)
   \<and> (statusCode InsufficientDiskSpaceError = 409
      \<and> restCode InsufficientDiskSpaceError = ''InsufficientDiskSpace''
      \<and> body_of InsufficientDiskSpaceError = code_message InsufficientDiskSpaceError)
   \<and> (ValidationFailedError m errs = Inr e3
      \<longrightarrow> statusCode e3 = 409 \<and> restCode e3 = ''ValidationFailed''
        \<and> body_of e3 = code_message e3 @ [(''errors'', errs)] \<and> arrayOfObject errs)
   \<and> missingParamErrorsElem (JStr f) JUndefined =
        Inr (JObj [(''field'', JStr f), (''code'', JStr ''MissingParameter'')])
   \<and> (DataVersionError a b c d = Inr e4
      \<longrightarrow> statusCode e4 = 503 \<and> restCode e4 = ''DataVersion'' \<and> body_of e4 = code_message e4)
   \<and> (MorayBucketsNotSetupError l = Inr e5
      \<longrightarrow> statusCode e5 = 503 \<and> restCode e5 = ''MorayBucketsNotSetup''
        \<and> body_of e5 = code_message e5 @ [(''lastInitError'', l)])"
  using message_errors_409 [of m] fixed_errors_409 validation_failed_409 [of m errs e3]
    data_version_503 [of a b c d e4] buckets_not_setup_503 [of l e5]
  by (simp add: missingParamErrorsElem_def)

theorem error_status_and_body_witness:
  "UnallocatedVMError (JStr ''VM has not been allocated to a server yet'') =
     Inr \<lparr> err_name = ''UnallocatedVMError'', restCode = ''UnallocatedVM'', statusCode = 409,
           message = ''VM has not been allocated to a server yet'',
           body_of = [(''code'', JStr ''UnallocatedVM''),
                      (''message'', JStr ''VM has not been allocated to a server yet'')] \<rparr>
   \<and> (case BrandNotSupportedError (JStr ''no snapshots for kvm'') of
        Inl x \<Rightarrow> False | Inr e \<Rightarrow> statusCode e = 409 \<and> body_of e = code_message e)
   \<and> (case ValidationFailedError (JStr ''Invalid VM parameters'')
             (JArr [JObj [(''field'', JStr ''ram''), (''code'', JStr ''MissingParameter'')]]) of
        Inl x \<Rightarrow> False
      | Inr e \<Rightarrow> statusCode e = 409 \<and> body_keys e = [''code'', ''message'', ''errors''])
   \<and> (case DataVersionError (JStr ''vms'') (JNum 2) (JNum 1) (JStr ''internal_metadata search'') of
        Inl x \<Rightarrow> False
      | Inr e \<Rightarrow> statusCode e = 503 \<and> body_keys e = [''code'', ''message'']
          \<and> message e = ''Data for model vms not at required version 2 to support internal_metadata search. Current data version is: 1'')
   \<and> (case MorayBucketsNotSetupError bucket_setup_error of
        Inl x \<Rightarrow> False
      | Inr e \<Rightarrow> statusCode e = 503 \<and> body_keys e = [''code'', ''message'', ''lastInitError''])"
proof -
  obtain e1 where e1: "UnallocatedVMError (JStr ''VM has not been allocated to a server yet'') = Inr e1"
    by (simp add: UnallocatedVMError_def)
  obtain e2 where e2: "BrandNotSupportedError (JStr ''no snapshots for kvm'') = Inr e2"
    by (simp add: BrandNotSupportedError_def)
  obtain e3 where e3: "ValidationFailedError (JStr ''Invalid VM parameters'')
      (JArr [JObj [(''field'', JStr ''ram''), (''code'', JStr ''MissingParameter'')]]) = Inr e3"
    by (simp add: ValidationFailedError_def arrayOfObject_def)
  obtain e4 where e4: "DataVersionError (JStr ''vms'') (JNum 2) (JNum 1)
      (JStr ''internal_metadata search'') = Inr e4"
    and m4: "message e4 = ''Data for model vms not at required version 2 to support internal_metadata search. Current data version is: 1''"
    by (simp add: DataVersionError_def show_int_def digit_def Let_def)
  obtain e5 where e5: "MorayBucketsNotSetupError bucket_setup_error = Inr e5"
    by (simp add: MorayBucketsNotSetupError_def bucket_setup_error_def)
  note t1 = error_status_and_body [where m = "JStr ''VM has not been allocated to a server yet''"
      and ?e1.0 = e1 and a = "JStr ''vms''" and b = "JNum 2" and c = "JNum 1"
      and d = "JStr ''internal_metadata search''" and ?e4.0 = e4
      and l = bucket_setup_error and ?e5.0 = e5]
  note t2 = error_status_and_body [where m = "JStr ''no snapshots for kvm''" and ?e2.0 = e2]
  note t3 = error_status_and_body [where m = "JStr ''Invalid VM parameters''" and ?e3.0 = e3
      and errs = "JArr [JObj [(''field'', JStr ''ram''), (''code'', JStr ''MissingParameter'')]]"]
  have "UnallocatedVMError (JStr ''VM has not been allocated to a server yet'') =
     Inr \<lparr> err_name = ''UnallocatedVMError'', restCode = ''UnallocatedVM'', statusCode = 409,
           message = ''VM has not been allocated to a server yet'',
           body_of = [(''code'', JStr ''UnallocatedVM''),
                      (''message'', JStr ''VM has not been allocated to a server yet'')] \<rparr>"
    by (simp add: UnallocatedVMError_def)
  with t1 t2 t3 e1 e2 e3 e4 e5 m4 show ?thesis
    by (simp add: body_keys_def code_message_def)
qed

text \<open>
  C8 as the spec states it fails on the body's shape: the body of
  \<open>MorayBucketsNotSetupError\<close> has a third key, \<open>lastInitError\<close>, which is neither
  of the two shapes.
\<close>

theorem buckets_error_body_counterexample:
  "map_sum id body_keys (MorayBucketsNotSetupError bucket_setup_error) =
     Inr [''code'', ''message'', ''lastInitError'']
   \<and> map_sum id (\<lambda>e. lookup (body_of e) ''lastInitError'')
        (MorayBucketsNotSetupError bucket_setup_error) = Inr bucket_setup_error"
  by (simp add: MorayBucketsNotSetupError_def bucket_setup_error_def body_keys_def lookup_def)

section \<open>Password generation\<close>

lemma put_same: "map_of ps k = Some v \<Longrightarrow> put ps k v = ps"
  by (simp add: put_def update_triv)

lemma mapSeries_keeps:
  "mapSeries_users apg users n (JObj obj) = (err, im')
   \<Longrightarrow> \<exists>obj'. im' = JObj obj' \<and> (\<forall>k. lookup obj k \<noteq> JUndefined \<longrightarrow> lookup obj' k = lookup obj k)"
proof (induction users arbitrary: n obj)
  case Nil
  then show ?case by auto
next
  case (Cons user users)
  show ?case
  proof (cases "bind (get user ''name'') to_str")
    case (Inl e)
    with Cons.prems show ?thesis by auto
  next
    case (Inr s)
    show ?thesis
    proof (cases "lookup obj (s @ ''_pw'') = JUndefined")
      case False
      with Cons.prems Inr have "mapSeries_users apg users n (JObj obj) = (err, im')"
        by (simp add: Let_def)
      from Cons.IH [OF this] show ?thesis .
    next
      case True
      show ?thesis
      proof (cases "apg n")
        case (Inl e)
        with Cons.prems \<open>bind (get user ''name'') to_str = Inr s\<close> True show ?thesis
          by (auto simp add: Let_def)
      next
        case (Inr out)
        with Cons.prems \<open>bind (get user ''name'') to_str = Inr s\<close> True
        have "mapSeries_users apg users (Suc n)
            (JObj (put obj (s @ ''_pw'') (JStr (strip_newlines out)))) = (err, im')"
          by (simp add: Let_def)
        from Cons.IH [OF this] obtain obj' where
          o: "im' = JObj obj'"
          and k: "\<forall>k. lookup (put obj (s @ ''_pw'') (JStr (strip_newlines out))) k \<noteq> JUndefined
             \<longrightarrow> lookup obj' k = lookup (put obj (s @ ''_pw'') (JStr (strip_newlines out))) k"
          by blast
        from k True have "\<forall>k. lookup obj k \<noteq> JUndefined \<longrightarrow> lookup obj' k = lookup obj k"
          by (auto simp: lookup_put split: if_splits)
        with o show ?thesis by blast
      qed
    qed
  qed
qed

lemma mapSeries_creates:
  "mapSeries_users apg users n (JObj obj) = (None, JObj obj')
   \<Longrightarrow> \<forall>user \<in> set users. \<exists>s. bind (get user ''name'') to_str = Inr s
          \<and> lookup obj' (s @ ''_pw'') \<noteq> JUndefined"
proof (induction users arbitrary: n obj)
  case Nil
  then show ?case by simp
next
  case (Cons user users)
  from Cons.prems obtain s where s: "bind (get user ''name'') to_str = Inr s"
    by (cases "bind (get user ''name'') to_str") auto
  show ?case
  proof (cases "lookup obj (s @ ''_pw'') = JUndefined")
    case False
    with Cons.prems s have run: "mapSeries_users apg users n (JObj obj) = (None, JObj obj')"
      by (simp add: Let_def)
    from mapSeries_keeps [OF run] False have "lookup obj' (s @ ''_pw'') \<noteq> JUndefined"
      by auto
    with Cons.IH [OF run] s show ?thesis by auto
  next
    case True
    with Cons.prems s obtain out where out: "apg n = Inr out"
      by (cases "apg n") (auto simp: Let_def)
    with Cons.prems s True
    have run: "mapSeries_users apg users (Suc n)
        (JObj (put obj (s @ ''_pw'') (JStr (strip_newlines out)))) = (None, JObj obj')"
      by (simp add: Let_def)
    from mapSeries_keeps [OF run] have "lookup obj' (s @ ''_pw'') \<noteq> JUndefined"
      by (auto simp: lookup_put)
    with Cons.IH [OF run] s show ?thesis by auto
  qed
qed

lemma mapSeries_nothing_to_do:
  "\<forall>user \<in> set users. \<exists>s. bind (get user ''name'') to_str = Inr s
          \<and> lookup obj (s @ ''_pw'') \<noteq> JUndefined
   \<Longrightarrow> mapSeries_users apg users n (JObj obj) = (None, JObj obj)"
  by (induction users arbitrary: n) (auto simp: Let_def)

lemma mapSeries_no_object:
  "mapSeries_users apg users n im = (None, im') \<Longrightarrow> \<not> is_object im \<or> isArray im
   \<Longrightarrow> users = [] \<and> im' = im"
  by (cases users; cases im) (auto simp: Let_def split: sum.splits)

lemma put_put: "put (put ps k v) k w = put ps k w"
  by (simp add: put_def update_last)

lemma generatePasswords_run:
  assumes "get (lookup (params job) ''image'') ''generate_passwords'' = Inr g"
      and "g \<noteq> JBool False"
      and "get (lookup (params job) ''image'') ''users'' = Inr (JArr us)"
      and "im0 = (if lookup (params job) ''internal_metadata'' = JUndefined then JObj []
                  else lookup (params job) ''internal_metadata'')"
      and "mapSeries_users apg us 0 im0 = (err, im)"
  shows "generatePasswords apg job =
           (case err of Some e \<Rightarrow> Inl e | None \<Rightarrow> Inr ''Passwords generated for Image'',
            job\<lparr>params := put (params job) ''internal_metadata'' im\<rparr>)"
  using assms
  by (auto simp add: generatePasswords_def Let_def lookup_put put_put split: option.splits)

lemma generatePasswords_skip:
  assumes "get (lookup (params job) ''image'') ''generate_passwords'' = Inr g"
      and "get (lookup (params job) ''image'') ''users'' = Inr us"
      and "g = JBool False \<or> \<not> isArray us"
  shows "generatePasswords apg job =
           (Inr (if g = JBool False then ''No need to generate passwords for image''
                 else ''Image has generate_passwords=true but no users found''), job)"
  using assms
  by (cases us) (auto simp add: generatePasswords_def Let_def)

lemma get_users_total:
  "get img ''generate_passwords'' = Inr g \<Longrightarrow> \<exists>us. get img ''users'' = Inr us"
  by (cases img) auto

lemma isArray_elems: "isArray v \<Longrightarrow> v = JArr (elems v)"
  by (cases v) auto

lemma generatePasswords_cases:
  assumes "generatePasswords apg job = (r, job')"
  obtains
    (thrown) e where "get (lookup (params job) ''image'') ''generate_passwords'' = Inl e"
      "r = Inl e" "job' = job"
  | (skipped) msg where "r = Inr msg" "job' = job"
  | (ran) g us err im where
      "get (lookup (params job) ''image'') ''generate_passwords'' = Inr g" "g \<noteq> JBool False"
      "get (lookup (params job) ''image'') ''users'' = Inr (JArr us)"
      "mapSeries_users apg us 0
         (if lookup (params job) ''internal_metadata'' = JUndefined then JObj []
          else lookup (params job) ''internal_metadata'') = (err, im)"
      "r = (case err of Some e \<Rightarrow> Inl e | None \<Rightarrow> Inr ''Passwords generated for Image'')"
      "job' = job\<lparr>params := put (params job) ''internal_metadata'' im\<rparr>"
proof (cases "get (lookup (params job) ''image'') ''generate_passwords''")
  case (Inl e)
  with assms have "r = Inl e" "job' = job"
    by (auto simp: generatePasswords_def Let_def)
  with Inl show ?thesis by (rule thrown)
next
  case (Inr g)
  then obtain us where us: "get (lookup (params job) ''image'') ''users'' = Inr us"
    using get_users_total by blast
  show ?thesis
  proof (cases "g = JBool False \<or> \<not> isArray us")
    case True
    from generatePasswords_skip [OF Inr us True, of apg] assms
    obtain msg where "r = Inr msg" "job' = job" by auto
    then show ?thesis by (rule skipped)
  next
    case False
    then have g: "g \<noteq> JBool False" and arr: "us = JArr (elems us)"
      using isArray_elems by auto
    obtain err im where run: "mapSeries_users apg (elems us) 0
         (if lookup (params job) ''internal_metadata'' = JUndefined then JObj []
          else lookup (params job) ''internal_metadata'') = (err, im)"
      by force
    have u: "get (lookup (params job) ''image'') ''users'' = Inr (JArr (elems us))"
      using us arr by simp
    from generatePasswords_run [OF Inr g u refl run] assms
    have "r = (case err of Some e \<Rightarrow> Inl e | None \<Rightarrow> Inr ''Passwords generated for Image'')"
      "job' = job\<lparr>params := put (params job) ''internal_metadata'' im\<rparr>"
      by auto
    with Inr g u run show ?thesis by (rule ran)
  qed
qed

lemma generatePasswords_never_overwrites:
  assumes "generatePasswords apg job = (r, job')"
      and "lookup (params job) ''internal_metadata'' = JObj obj"
  shows "\<exists>obj'. lookup (params job') ''internal_metadata'' = JObj obj'
           \<and> (\<forall>k. lookup obj k \<noteq> JUndefined \<longrightarrow> lookup obj' k = lookup obj k)"
  using assms(1)
proof (cases rule: generatePasswords_cases)
  case (thrown e)
  with assms(2) show ?thesis by simp
next
  case (skipped msg)
  with assms(2) show ?thesis by simp
next
  case (ran g us err im)
  from ran(4) assms(2) have "mapSeries_users apg us 0 (JObj obj) = (err, im)" by simp
  from mapSeries_keeps [OF this] ran(6) show ?thesis
    by (simp add: lookup_put)
qed

lemma generatePasswords_creates:
  assumes "generatePasswords apg job = (Inr msg, job')"
      and "get (lookup (params job) ''image'') ''generate_passwords'' = Inr g"
      and "g \<noteq> JBool False"
      and "get (lookup (params job) ''image'') ''users'' = Inr (JArr us)"
      and "user \<in> set us"
  shows "\<exists>s obj'. bind (get user ''name'') to_str = Inr s
           \<and> lookup (params job') ''internal_metadata'' = JObj obj'
           \<and> lookup obj' (s @ ''_pw'') \<noteq> JUndefined"
proof -
  obtain err im where run: "mapSeries_users apg us 0
       (if lookup (params job) ''internal_metadata'' = JUndefined then JObj []
        else lookup (params job) ''internal_metadata'') = (err, im)"
    by force
  from generatePasswords_run [OF assms(2,3,4) refl run] assms(1)
  have none: "err = None"
    and job': "job' = job\<lparr>params := put (params job) ''internal_metadata'' im\<rparr>"
    by (auto split: option.splits)
  let ?im0 = "if lookup (params job) ''internal_metadata'' = JUndefined then JObj []
        else lookup (params job) ''internal_metadata''"
  have "\<exists>obj. ?im0 = JObj obj"
  proof (rule ccontr)
    assume "\<not> (\<exists>obj. ?im0 = JObj obj)"
    then have "\<not> is_object ?im0 \<or> isArray ?im0" by (cases ?im0) auto
    with mapSeries_no_object [of apg us 0 ?im0 im] run none assms(5) show False by auto
  qed
  then obtain obj where obj: "?im0 = JObj obj" by blast
  with run none have r: "mapSeries_users apg us 0 (JObj obj) = (None, im)" by simp
  from mapSeries_keeps [OF r] obtain obj' where im: "im = JObj obj'" by blast
  from mapSeries_creates [of apg us 0 obj obj'] r im assms(5)
  obtain s where "bind (get user ''name'') to_str = Inr s" "lookup obj' (s @ ''_pw'') \<noteq> JUndefined"
    by auto
  with im job' show ?thesis by (simp add: lookup_put)
qed

lemma generatePasswords_idempotent:
  assumes "generatePasswords apg job = (Inr msg, job')"
  shows "generatePasswords apg' job' = (Inr msg, job')"
proof (cases "get (lookup (params job) ''image'') ''generate_passwords''")
  case (Inl e)
  with assms show ?thesis by (simp add: generatePasswords_def Let_def)
next
  case (Inr g)
  then obtain us where us: "get (lookup (params job) ''image'') ''users'' = Inr us"
    using get_users_total by blast
  show ?thesis
  proof (cases "g = JBool False \<or> \<not> isArray us")
    case True
    from generatePasswords_skip [OF Inr us True] assms show ?thesis by simp
  next
    case False
    then have g: "g \<noteq> JBool False" and arr: "us = JArr (elems us)"
      using isArray_elems by auto
    let ?im0 = "if lookup (params job) ''internal_metadata'' = JUndefined then JObj []
        else lookup (params job) ''internal_metadata''"
    obtain err im where run: "mapSeries_users apg (elems us) 0 ?im0 = (err, im)"
      by force
    have u: "get (lookup (params job) ''image'') ''users'' = Inr (JArr (elems us))"
      using us arr by simp
    from generatePasswords_run [OF Inr g u refl run] assms
    have none: "err = None" and msg: "msg = ''Passwords generated for Image''"
      and job': "job' = job\<lparr>params := put (params job) ''internal_metadata'' im\<rparr>"
      by (auto split: option.splits)
    have again: "mapSeries_users apg' (elems us) 0 im = (None, im)" and def: "im \<noteq> JUndefined"
    proof -
      show "mapSeries_users apg' (elems us) 0 im = (None, im)"
      proof (cases "\<exists>obj. ?im0 = JObj obj")
        case True
        then obtain obj where obj: "?im0 = JObj obj" by blast
        with run none have r: "mapSeries_users apg (elems us) 0 (JObj obj) = (None, im)" by simp
        from mapSeries_keeps [OF r] obtain obj' where im: "im = JObj obj'" by blast
        from mapSeries_creates [of apg "elems us" 0 obj obj'] r im
        have "\<forall>user \<in> set (elems us). \<exists>s. bind (get user ''name'') to_str = Inr s
            \<and> lookup obj' (s @ ''_pw'') \<noteq> JUndefined"
          by simp
        from mapSeries_nothing_to_do [OF this] im show ?thesis by simp
      next
        case False
        then have "\<not> is_object ?im0 \<or> isArray ?im0" by (cases ?im0) auto
        with mapSeries_no_object [of apg "elems us" 0 ?im0 im] run none
        show ?thesis by simp
      qed
      show "im \<noteq> JUndefined"
      proof (cases "\<exists>obj. ?im0 = JObj obj")
        case True
        then obtain obj where obj: "?im0 = JObj obj" by blast
        with run none have r: "mapSeries_users apg (elems us) 0 (JObj obj) = (None, im)" by simp
        from mapSeries_keeps [OF r] show ?thesis by auto
      next
        case False
        then have "\<not> is_object ?im0 \<or> isArray ?im0" by (cases ?im0) auto
        with mapSeries_no_object [of apg "elems us" 0 ?im0 im] run none
        have "im = ?im0" by simp
        then show ?thesis by (auto split: if_splits)
      qed
    qed
    have img: "lookup (params job') ''image'' = lookup (params job) ''image''"
      and im': "lookup (params job') ''internal_metadata'' = im"
      using job' by (simp_all add: lookup_put)
    have run': "mapSeries_users apg' (elems us) 0
        (if lookup (params job') ''internal_metadata'' = JUndefined then JObj []
         else lookup (params job') ''internal_metadata'') = (None, im)"
      using again def im' by simp
    have "generatePasswords apg' job' =
        (Inr ''Passwords generated for Image'',
         job'\<lparr>params := put (params job') ''internal_metadata'' im\<rparr>)"
      using generatePasswords_run [of job' g "elems us" _ apg' None im, OF _ g _ refl run']
        Inr u img by simp
    with job' msg show ?thesis by (simp add: put_put)
  qed
qed

text \<open>
  C10. \<open>generatePasswords\<close> never changes a property of \<open>internal_metadata\<close> that
  is already defined, whatever the outcome of the task. When the task succeeds, the flag is not the boolean
  \<open>false\<close> (absent included) and the image has a \<open>users\<close> array, every user's
  \<open><name>_pw\<close> is defined afterwards. Running the task again on the job a
  successful run left, with any outcomes of the password generator, gives the same
  message and the same job. The task is skipped with \<open>No need to generate passwords
  for image\<close> when \<open>image.generate_passwords\<close> is the boolean \<open>false\<close>.
\<close>

theorem generatePasswords_keeps_existing_passwords:
  "(generatePasswords apg job = (r, job1)
      \<and> lookup (params job) ''internal_metadata'' = JObj obj
    \<longrightarrow> (\<exists>obj'. lookup (params job1) ''internal_metadata'' = JObj obj'
          \<and> (\<forall>k. lookup obj k \<noteq> JUndefined \<longrightarrow> lookup obj' k = lookup obj k)))
   \<and> (generatePasswords apg job = (Inr msg, job2)
      \<and> get (lookup (params job) ''image'') ''generate_passwords'' = Inr g
      \<and> g \<noteq> JBool False
      \<and> get (lookup (params job) ''image'') ''users'' = Inr (JArr us)
      \<and> user \<in> set us
    \<longrightarrow> (\<exists>s obj'. bind (get user ''name'') to_str = Inr s
          \<and> lookup (params job2) ''internal_metadata'' = JObj obj'
          \<and> lookup obj' (s @ ''_pw'') \<noteq> JUndefined))
   \<and> (generatePasswords apg job = (Inr msg, job2)
    \<longrightarrow> generatePasswords apg' job2 = (Inr msg, job2))
   \<and> (get (lookup (params job) ''image'') ''generate_passwords'' = Inr (JBool False)
    \<longrightarrow> generatePasswords apg job = (Inr ''No need to generate passwords for image'', job))"
proof (intro conjI impI)
  assume "generatePasswords apg job = (r, job1)
      \<and> lookup (params job) ''internal_metadata'' = JObj obj"
  then show "\<exists>obj'. lookup (params job1) ''internal_metadata'' = JObj obj'
          \<and> (\<forall>k. lookup obj k \<noteq> JUndefined \<longrightarrow> lookup obj' k = lookup obj k)"
    using generatePasswords_never_overwrites [of apg job r job1 obj] by simp
next
  assume "generatePasswords apg job = (Inr msg, job2)
      \<and> get (lookup (params job) ''image'') ''generate_passwords'' = Inr g
      \<and> g \<noteq> JBool False
      \<and> get (lookup (params job) ''image'') ''users'' = Inr (JArr us)
      \<and> user \<in> set us"
  then show "\<exists>s obj'. bind (get user ''name'') to_str = Inr s
          \<and> lookup (params job2) ''internal_metadata'' = JObj obj'
          \<and> lookup obj' (s @ ''_pw'') \<noteq> JUndefined"
    using generatePasswords_creates [of apg job msg job2 g us user] by simp
next
  assume "generatePasswords apg job = (Inr msg, job2)"
  then show "generatePasswords apg' job2 = (Inr msg, job2)"
    by (rule generatePasswords_idempotent)
next
  assume f: "get (lookup (params job) ''image'') ''generate_passwords'' = Inr (JBool False)"
  then obtain us where "get (lookup (params job) ''image'') ''users'' = Inr us"
    using get_users_total by blast
  from generatePasswords_skip [OF f this] 
  show "generatePasswords apg job = (Inr ''No need to generate passwords for image'', job)"
    by simp
qed

lemma password_job_run:
  "generatePasswords apg_fresh password_job =
     (Inr ''Passwords generated for Image'', password_job_done)"
  by code_simp

theorem generatePasswords_keeps_existing_passwords_witness:
  "generatePasswords apg_fresh password_job =
     (Inr ''Passwords generated for Image'', password_job_done)
   \<and> lookup (params password_job) ''internal_metadata'' =
       JObj [(''admin_pw'', JStr ''given-by-caller'')]
   \<and> get (lookup (params password_job_done) ''internal_metadata'') ''admin_pw'' =
       Inr (JStr ''given-by-caller'')
   \<and> get (lookup (params password_job) ''image'') ''generate_passwords'' = Inr JUndefined
   \<and> get (lookup (params password_job) ''image'') ''users'' =
       Inr (JArr [JObj [(''name'', JStr ''root'')], JObj [(''name'', JStr ''admin'')]])
   \<and> get (lookup (params password_job_done) ''internal_metadata'') ''root_pw''
       \<noteq> Inr JUndefined
   \<and> generatePasswords apg_fails password_job_done =
       (Inr ''Passwords generated for Image'', password_job_done)
   \<and> get (lookup (params no_passwords_job) ''image'') ''generate_passwords''
       = Inr (JBool False)
   \<and> generatePasswords apg_fresh no_passwords_job =
       (Inr ''No need to generate passwords for image'', no_passwords_job)"
proof -
  have flag: "get (lookup (params no_passwords_job) ''image'') ''generate_passwords''
      = Inr (JBool False)"
    by code_simp
  have given: "lookup (params password_job) ''internal_metadata'' =
       JObj [(''admin_pw'', JStr ''given-by-caller'')]"
    by code_simp
  have absent: "get (lookup (params password_job) ''image'') ''generate_passwords''
      = Inr JUndefined"
    by code_simp
  have users: "get (lookup (params password_job) ''image'') ''users'' =
       Inr (JArr [JObj [(''name'', JStr ''root'')], JObj [(''name'', JStr ''admin'')]])"
    by code_simp
  have root: "bind (get (JObj [(''name'', JStr ''root'')]) ''name'') to_str = Inr ''root''"
    by code_simp
  have there: "lookup [(''admin_pw'', JStr ''given-by-caller'')] ''admin_pw''
      = JStr ''given-by-caller''"
    by code_simp
  from generatePasswords_keeps_existing_passwords [where apg = apg_fresh
      and job = password_job and r = "Inr ''Passwords generated for Image''"
      and ?job1.0 = password_job_done and obj = "[(''admin_pw'', JStr ''given-by-caller'')]",
      THEN conjunct1, THEN mp, OF conjI, OF password_job_run given]
  obtain obj1 where o1: "lookup (params password_job_done) ''internal_metadata'' = JObj obj1"
    and k1: "\<forall>k. lookup [(''admin_pw'', JStr ''given-by-caller'')] k \<noteq> JUndefined
        \<longrightarrow> lookup obj1 k = lookup [(''admin_pw'', JStr ''given-by-caller'')] k"
    by blast
  from k1 there have "lookup obj1 ''admin_pw'' = JStr ''given-by-caller''" by simp
  with o1 have kept: "get (lookup (params password_job_done) ''internal_metadata'') ''admin_pw''
      = Inr (JStr ''given-by-caller'')"
    by simp
  have hyp2: "generatePasswords apg_fresh password_job =
       (Inr ''Passwords generated for Image'', password_job_done)
      \<and> get (lookup (params password_job) ''image'') ''generate_passwords'' = Inr JUndefined
      \<and> JUndefined \<noteq> JBool False
      \<and> get (lookup (params password_job) ''image'') ''users'' =
          Inr (JArr [JObj [(''name'', JStr ''root'')], JObj [(''name'', JStr ''admin'')]])
      \<and> JObj [(''name'', JStr ''root'')]
          \<in> set [JObj [(''name'', JStr ''root'')], JObj [(''name'', JStr ''admin'')]]"
    using password_job_run absent users by simp
  from generatePasswords_keeps_existing_passwords [where apg = apg_fresh
      and job = password_job and msg = "''Passwords generated for Image''"
      and ?job2.0 = password_job_done and g = JUndefined
      and us = "[JObj [(''name'', JStr ''root'')], JObj [(''name'', JStr ''admin'')]]"
      and user = "JObj [(''name'', JStr ''root'')]",
      THEN conjunct2, THEN conjunct1, THEN mp, OF hyp2]
  obtain s obj2 where s: "bind (get (JObj [(''name'', JStr ''root'')]) ''name'') to_str = Inr s"
    and o2: "lookup (params password_job_done) ''internal_metadata'' = JObj obj2"
    and k2: "lookup obj2 (s @ ''_pw'') \<noteq> JUndefined"
    by blast
  from s root have "s = ''root''" by simp
  with k2 o2 have made: "get (lookup (params password_job_done) ''internal_metadata'') ''root_pw''
      \<noteq> Inr JUndefined"
    by simp
  note again = generatePasswords_keeps_existing_passwords [where apg = apg_fresh
      and job = password_job and ?job2.0 = password_job_done
      and msg = "''Passwords generated for Image''" and apg' = apg_fails,
      THEN conjunct2, THEN conjunct2, THEN conjunct1, THEN mp, OF password_job_run]
  note skip = generatePasswords_keeps_existing_passwords [where apg = apg_fresh
      and job = no_passwords_job,
      THEN conjunct2, THEN conjunct2, THEN conjunct2, THEN mp, OF flag]
  show ?thesis
    by (intro conjI) (rule password_job_run given kept absent users made again flag skip)+
qed

section \<open>The CNAPI payload\<close>

lemma map_of_put: "map_of (put ps k v) k' = (if k' = k then Some v else map_of ps k')"
  by (simp add: put_def update_conv')

lemma map_of_del: "map_of (del ps k) k' = (if k' = k then None else map_of ps k')"
  by (simp add: del_def delete_conv')

lemma bind_Inr: "bind m f = Inr y \<longleftrightarrow> (\<exists>x. m = Inr x \<and> f x = Inr y)"
  by (cases m) auto

lemma copy_fold:
  "map_of (foldl (\<lambda>p key. if lookup ps key \<noteq> JUndefined then put p key (lookup ps key) else p)
             payload ks) k =
     (if k \<in> set ks \<and> lookup ps k \<noteq> JUndefined then Some (lookup ps k) else map_of payload k)"
  by (induction ks arbitrary: payload) (auto simp: map_of_put)

lemma map_of_copy_keys:
  "map_of (copy_keys ps payload) k =
     (if k \<in> set payload_keys \<and> lookup ps k \<noteq> JUndefined then Some (lookup ps k)
      else map_of payload k)"
  unfolding copy_keys_def by (rule copy_fold)

lemma other_props_fold:
  "foldl (\<lambda>acc field. bind acc (\<lambda>p.
            if truthy (lookup ps field) then Inr (put p field (lookup ps field))
            else bind (get img field) (\<lambda>v. Inr (put p field v))))
         start flds = Inr p'
   \<Longrightarrow> \<exists>p. start = Inr p \<and> (\<forall>k. k \<notin> set flds \<longrightarrow> map_of p' k = map_of p k)"
proof (induction flds arbitrary: start)
  case Nil
  then show ?case by simp
next
  case (Cons f flds)
  from Cons.IH [OF Cons.prems [simplified]] obtain p1 where
    p1: "bind start (\<lambda>p. if truthy (lookup ps f) then Inr (put p f (lookup ps f))
            else bind (get img f) (\<lambda>v. Inr (put p f v))) = Inr p1"
    and keep: "\<forall>k. k \<notin> set flds \<longrightarrow> map_of p' k = map_of p1 k"
    by blast
  from p1 obtain p where p: "start = Inr p"
    and step: "(if truthy (lookup ps f) then Inr (put p f (lookup ps f))
            else bind (get img f) (\<lambda>v. Inr (put p f v))) = Inr p1"
    by (auto simp: bind_Inr)
  from step have "\<forall>k. k \<noteq> f \<longrightarrow> map_of p1 k = map_of p k"
    by (auto simp: bind_Inr map_of_put split: if_splits)
  with keep p show ?case by auto
qed

lemma brand_fields_hvm:
  assumes "brand_fields ps img payload = Inr p'"
      and "js_includes hvm_brands (lookup ps ''brand'')"
  shows "map_of p' ''disks'' = Some (lookup ps ''disks'')"
    and "map_of p' ''quota'' = None"
    and "k \<notin> {''disks'', ''disk_driver'', ''nic_driver'', ''cpu_type'', ''flexible_disk_size'',
              ''quota''} \<Longrightarrow> map_of p' k = map_of payload k"
proof -
  let ?flds = "[''disk_driver'', ''nic_driver'', ''cpu_type'']
               @ (if lookup ps ''brand'' = JStr ''bhyve'' then [''flexible_disk_size''] else [])"
  from assms obtain p2 where
    fold: "foldl (\<lambda>acc field. bind acc (\<lambda>p.
            if truthy (lookup ps field) then Inr (put p field (lookup ps field))
            else bind (get img field) (\<lambda>v. Inr (put p field v))))
         (Inr (put payload ''disks'' (lookup ps ''disks''))) ?flds = Inr p2"
    and p': "p' = del p2 ''quota''"
    by (auto simp: brand_fields_def Let_def bind_Inr)
  from other_props_fold [OF fold]
  have keep: "\<forall>k. k \<notin> set ?flds \<longrightarrow> map_of p2 k = map_of (put payload ''disks'' (lookup ps ''disks'')) k"
    by auto
  show "map_of p' ''disks'' = Some (lookup ps ''disks'')"
    using keep p' by (simp add: map_of_del map_of_put)
  show "map_of p' ''quota'' = None"
    using p' by (simp add: map_of_del)
  show "k \<notin> {''disks'', ''disk_driver'', ''nic_driver'', ''cpu_type'', ''flexible_disk_size'',
              ''quota''} \<Longrightarrow> map_of p' k = map_of payload k"
    using keep p' by (simp add: map_of_del map_of_put)
qed

lemma brand_fields_zone:
  assumes "brand_fields ps img payload = Inr p'"
      and "\<not> js_includes hvm_brands (lookup ps ''brand'')"
  shows "map_of p' ''image_uuid'' = Some (lookup ps ''image_uuid'')"
    and "lookup ps ''filesystems'' \<noteq> JUndefined
         \<Longrightarrow> map_of p' ''filesystems'' = Some (lookup ps ''filesystems'')"
    and "k \<notin> {''image_uuid'', ''filesystems''} \<Longrightarrow> map_of p' k = map_of payload k"
  using assms by (auto simp: brand_fields_def Let_def map_of_put split: if_splits)

lemma set_prop_Inr: "set_prop v k w = Inr v' \<Longrightarrow> \<exists>obj. v = JObj obj \<and> v' = JObj (put obj k w)"
  by (cases v) auto

lemma nfs_metadata_keeps:
  assumes "nfs_metadata jp js nfs ps payload = Inr (p', ps')"
      and "k \<noteq> ''internal_metadata''"
  shows "map_of p' k = map_of payload k" and "map_of ps' k = map_of ps k"
  using assms
  by (auto simp: nfs_metadata_def Let_def bind_Inr map_of_put split: if_splits)

lemma kernel_and_brand:
  assumes "bind (set_kernel_version ps img) (\<lambda>ps. set_lx_brand ps img) = Inr ps'"
  shows "k \<notin> {''kernel_version'', ''brand''} \<Longrightarrow> map_of ps' k = map_of ps k"
    and "\<exists>obj. img = JObj obj \<and>
           lookup ps' ''brand'' =
             (if lookup obj ''type'' = JStr ''lx-dataset'' then JStr ''lx'' else lookup ps ''brand'')"
proof -
  from assms obtain ps1 where k: "set_kernel_version ps img = Inr ps1"
    and b: "set_lx_brand ps1 img = Inr ps'"
    by (auto simp: bind_Inr)
  from k obtain obj where img: "img = JObj obj"
    by (cases img) (auto simp: set_kernel_version_def)
  from k have k1: "\<forall>k. k \<noteq> ''kernel_version'' \<longrightarrow> map_of ps1 k = map_of ps k"
    by (auto simp: set_kernel_version_def bind_Inr map_of_put split: if_splits)
  from b img have b1: "ps' = (if lookup obj ''type'' = JStr ''lx-dataset''
      then put ps1 ''brand'' (JStr ''lx'') else ps1)"
    by (auto simp: set_lx_brand_def)
  show "k \<notin> {''kernel_version'', ''brand''} \<Longrightarrow> map_of ps' k = map_of ps k"
    using k1 b1 by (simp add: map_of_put)
  have "lookup ps1 ''brand'' = lookup ps ''brand''"
    using k1 by (simp add: lookup_def)
  with b1 img show "\<exists>obj. img = JObj obj \<and>
           lookup ps' ''brand'' =
             (if lookup obj ''type'' = JStr ''lx-dataset'' then JStr ''lx'' else lookup ps ''brand'')"
    by (simp add: lookup_put)
qed

lemma add_resolvers_append:
  "add_resolvers acc (xs @ ys) = add_resolvers (add_resolvers acc xs) ys"
  by (induction xs arbitrary: acc) auto

lemma strict_eq_primitive: "primitive e \<Longrightarrow> strict_eq e x = (e = x)"
  by (cases e) auto

lemma js_includes_primitive: "list_all primitive acc \<Longrightarrow> js_includes acc x = (x \<in> set acc)"
  by (induction acc) (auto simp: js_includes_def strict_eq_primitive)

lemma remdups_skip: "x \<in> set ys \<Longrightarrow> remdups (xs @ x # ys) = remdups (xs @ ys)"
  by (induction xs) auto

lemma first_occurrences_seen:
  "x \<in> set acc \<Longrightarrow> first_occurrences (acc @ x # xs) = first_occurrences (acc @ xs)"
  by (simp add: first_occurrences_def remdups_skip)

lemma add_resolvers_first_occurrences:
  "list_all primitive (acc @ xs) \<Longrightarrow> distinct acc
   \<Longrightarrow> add_resolvers acc xs = first_occurrences (acc @ xs)"
proof (induction xs arbitrary: acc)
  case Nil
  then have "distinct (rev acc)" by simp
  then have "remdups (rev acc) = rev acc" by (rule distinct_remdups_id)
  then show ?case by (simp only: first_occurrences_def append_Nil2 rev_rev_ident add_resolvers.simps)
next
  case (Cons x xs)
  show ?case
  proof (cases "x \<in> set acc")
    case True
    with Cons.prems have "add_resolvers acc (x # xs) = add_resolvers acc xs"
      by (simp add: js_includes_primitive)
    also have "\<dots> = first_occurrences (acc @ xs)"
      using Cons.IH [of acc] Cons.prems by simp
    finally show ?thesis using True by (simp add: first_occurrences_seen)
  next
    case False
    with Cons.prems have "add_resolvers acc (x # xs) = add_resolvers (acc @ [x]) xs"
      by (simp add: js_includes_primitive)
    also have "\<dots> = first_occurrences ((acc @ [x]) @ xs)"
      using Cons.IH [of "acc @ [x]"] Cons.prems False by simp
    finally show ?thesis by simp
  qed
qed

lemma merge_routes_map:
  "merge_routes routes es = Inr routes' \<Longrightarrow> map_of routes' = map_of (routes @ es)"
proof (induction es arbitrary: routes)
  case Nil
  then show ?case by simp
next
  case (Cons e es)
  obtain r v where e: "e = (r, v)" by (cases e)
  from Cons.prems e obtain h where h: "hasOwnProperty (JObj routes) r = Inr h"
    and rest: "(if h then merge_routes routes es
                else if r = ''__proto__'' then Inl Unmodelled
                else merge_routes (put routes r v) es) = Inr routes'"
    by (auto simp: bind_Inr)
  from h have hr: "h = (map_of routes r \<noteq> None)" by (auto split: if_splits)
  show ?case
  proof (cases h)
    case True
    with rest have "map_of routes' = map_of (routes @ es)" using Cons.IH by simp
    moreover from True hr have "map_of (routes @ (r, v) # es) = map_of (routes @ es)"
      by (auto simp: map_add_def fun_eq_iff split: option.splits)
    ultimately show ?thesis using e by simp
  next
    case False
    with rest have "map_of routes' = map_of (put routes r v @ es)"
      using Cons.IH [of "put routes r v"] by (simp split: if_splits)
    moreover from False hr have "map_of (put routes r v @ es) = map_of (routes @ (r, v) # es)"
      by (auto simp: map_add_def fun_eq_iff map_of_put split: option.splits)
    ultimately show ?thesis using e by simp
  qed
qed

lemma collect_result:
  "collect nics (rs, routes) = Inr (rs', routes')
   \<Longrightarrow> rs' = add_resolvers rs (concat (map nic_resolvers nics))
       \<and> map_of routes' = map_of (routes @ concat (map nic_routes nics))"
proof (induction nics arbitrary: rs routes)
  case Nil
  then show ?case by simp
next
  case (Cons nic nics)
  from Cons.prems obtain r t routes1 where
    r: "get nic ''resolvers'' = Inr r" and t: "get nic ''routes'' = Inr t"
    and m: "(if t \<noteq> JUndefined \<and> typeof_object t then merge_routes routes (for_in t)
             else Inr routes) = Inr routes1"
    and c: "collect nics
         (if r \<noteq> JUndefined \<and> isArray r then add_resolvers rs (elems r) else rs, routes1)
        = Inr (rs', routes')"
    by (auto simp: bind_Inr)
  from m t have m1: "map_of routes1 = map_of (routes @ nic_routes nic)"
    by (auto simp: nic_routes_def merge_routes_map split: if_splits)
  from r have r1: "(if r \<noteq> JUndefined \<and> isArray r then add_resolvers rs (elems r) else rs)
      = add_resolvers rs (nic_resolvers nic)"
    by (simp add: nic_resolvers_def)
  from Cons.IH [OF c] r1 m1 show ?case
    by (simp add: add_resolvers_append)
qed

lemma payload_keys_mem:
  "''resolvers'' \<in> set payload_keys" "''quota'' \<in> set payload_keys"
  "''archive_on_delete'' \<notin> set payload_keys" "''routes'' \<notin> set payload_keys"
  "''disks'' \<notin> set payload_keys" "''image_uuid'' \<notin> set payload_keys"
  "''filesystems'' \<notin> set payload_keys"
  by (simp_all add: payload_keys_def)

lemma build_payload_stages:
  assumes "build_payload jp js nfs ps img = Inr (payload, ps3)"
  obtains want nics rs routes p4 p5 where
    "wantResolvers ps = Inr want"
    "for_elems (lookup ps ''nics'') = Inr nics"
    "collect nics ([], []) = Inr (rs, routes)"
    "map_of p4 ''archive_on_delete'' = Some (JBool True)"
    "map_of p4 ''resolvers'' =
       (if want \<and> \<not> truthy (lookup ps ''resolvers'') then Some (JArr rs)
        else if lookup ps ''resolvers'' = JUndefined then None
        else Some (lookup ps ''resolvers''))"
    "map_of p4 ''routes'' = (if routes \<noteq> [] then Some (JObj routes) else None)"
    "map_of p4 ''quota'' =
       (if lookup ps ''quota'' = JUndefined then None else Some (lookup ps ''quota''))"
    "brand_fields ps img p4 = Inr p5"
    "nfs_metadata jp js nfs ps
       (if lookup ps ''imgapiPeers'' \<noteq> JUndefined
        then put p5 ''imgapiPeers'' (lookup ps ''imgapiPeers'') else p5) = Inr (payload, ps3)"
proof -
  define p2 where "p2 = put (copy_keys ps [(''uuid'', lookup ps ''vm_uuid''), (''image'', img)])
      ''archive_on_delete'' (JBool True)"
  from assms obtain want nics x where
    w: "wantResolvers ps = Inr want" and f: "for_elems (lookup ps ''nics'') = Inr nics"
    and c: "collect nics ([], []) = Inr x"
    and rest: "(case x of (resolvers, routes) \<Rightarrow>
        bind (brand_fields ps img
               (if routes \<noteq> [] then
                  put (if want \<and> \<not> truthy (lookup p2 ''resolvers'')
                       then put p2 ''resolvers'' (JArr resolvers) else p2) ''routes'' (JObj routes)
                else (if want \<and> \<not> truthy (lookup p2 ''resolvers'')
                      then put p2 ''resolvers'' (JArr resolvers) else p2)))
          (\<lambda>payload5. nfs_metadata jp js nfs ps
              (if lookup ps ''imgapiPeers'' \<noteq> JUndefined
               then put payload5 ''imgapiPeers'' (lookup ps ''imgapiPeers'') else payload5)))
       = Inr (payload, ps3)"
    unfolding build_payload_def Let_def p2_def bind_Inr by blast
  obtain rs routes where x: "x = (rs, routes)" by (cases x)
  define p3 where "p3 = (if want \<and> \<not> truthy (lookup p2 ''resolvers'')
                       then put p2 ''resolvers'' (JArr rs) else p2)"
  define p4 where "p4 = (if routes \<noteq> [] then put p3 ''routes'' (JObj routes) else p3)"
  from rest x obtain p5 where b: "brand_fields ps img p4 = Inr p5"
    and n: "nfs_metadata jp js nfs ps
       (if lookup ps ''imgapiPeers'' \<noteq> JUndefined
        then put p5 ''imgapiPeers'' (lookup ps ''imgapiPeers'') else p5) = Inr (payload, ps3)"
    unfolding p4_def p3_def by (auto simp: bind_Inr)
  have m2: "\<And>k. map_of p2 k =
      (if k = ''archive_on_delete'' then Some (JBool True)
       else if k \<in> set payload_keys \<and> lookup ps k \<noteq> JUndefined then Some (lookup ps k)
       else map_of [(''uuid'', lookup ps ''vm_uuid''), (''image'', img)] k)"
    by (simp add: p2_def map_of_put map_of_copy_keys)
  have r2: "lookup p2 ''resolvers'' = lookup ps ''resolvers''"
    by (simp add: lookup_def m2 payload_keys_mem)
  have "map_of p4 ''archive_on_delete'' = Some (JBool True)"
    by (simp add: p4_def p3_def map_of_put m2)
  moreover have "map_of p4 ''resolvers'' =
       (if want \<and> \<not> truthy (lookup ps ''resolvers'') then Some (JArr rs)
        else if lookup ps ''resolvers'' = JUndefined then None
        else Some (lookup ps ''resolvers''))"
    by (simp add: p4_def p3_def map_of_put m2 r2 payload_keys_mem)
  moreover have "map_of p4 ''routes'' = (if routes \<noteq> [] then Some (JObj routes) else None)"
    by (simp add: p4_def p3_def map_of_put m2 payload_keys_mem)
  moreover have "map_of p4 ''quota'' =
       (if lookup ps ''quota'' = JUndefined then None else Some (lookup ps ''quota''))"
    by (simp add: p4_def p3_def map_of_put m2 payload_keys_mem)
  ultimately show ?thesis using that w f c x b n by blast
qed

lemma lookup_map_of: "(\<And>k. k \<notin> K \<Longrightarrow> map_of a k = map_of b k) \<Longrightarrow> k \<notin> K \<Longrightarrow> lookup a k = lookup b k"
  by (simp add: lookup_def)

lemma preparePayload_stages:
  assumes "preparePayload jp js job = (Inr msg, job')"
  obtains ps2 payload ps3 obj where
    "lookup (params job) ''image'' = JObj obj"
    "\<forall>k. k \<notin> {''kernel_version'', ''brand'', ''jobid''} \<longrightarrow> lookup ps2 k = lookup (params job) k"
    "lookup ps2 ''brand'' =
       (if lookup obj ''type'' = JStr ''lx-dataset'' then JStr ''lx''
        else lookup (params job) ''brand'')"
    "build_payload jp js (nfsVolumesInternalMetadata job) ps2 (JObj obj) = Inr (payload, ps3)"
    "\<forall>k. k \<notin> {''internal_metadata'', ''payload''} \<longrightarrow> lookup (params job') k = lookup ps2 k"
    "lookup (params job') ''payload'' = JObj payload"
proof -
  define ps1 where "ps1 = put (params job) ''jobid'' (uuid job)"
  define img where "img = lookup ps1 ''image''"
  have img_job: "img = lookup (params job) ''image''"
    by (simp add: img_def ps1_def lookup_put)
  from assms obtain ps2 where
    kb: "bind (set_kernel_version ps1 img) (\<lambda>ps. set_lx_brand ps img) = Inr ps2"
    by (cases "bind (set_kernel_version ps1 img) (\<lambda>ps. set_lx_brand ps img)")
       (auto simp: preparePayload_def Let_def ps1_def img_def)
  with assms obtain payload ps3 where
    bp: "build_payload jp js (nfsVolumesInternalMetadata job) ps2 img = Inr (payload, ps3)"
    and job': "job' = job\<lparr>params := put ps3 ''payload'' (JObj payload)\<rparr>"
    by (cases "build_payload jp js (nfsVolumesInternalMetadata job) ps2 img")
       (auto simp: preparePayload_def Let_def ps1_def img_def)
  from kernel_and_brand(2) [OF kb] obtain obj where obj: "img = JObj obj"
    and brand: "lookup ps2 ''brand'' =
       (if lookup obj ''type'' = JStr ''lx-dataset'' then JStr ''lx'' else lookup ps1 ''brand'')"
    by blast
  have keep1: "\<forall>k. k \<notin> {''kernel_version'', ''brand'', ''jobid''}
      \<longrightarrow> lookup ps2 k = lookup (params job) k"
    using kernel_and_brand(1) [OF kb] by (simp add: lookup_def ps1_def map_of_put)
  from bp obtain p5 where
    n: "nfs_metadata jp js (nfsVolumesInternalMetadata job) ps2
       (if lookup ps2 ''imgapiPeers'' \<noteq> JUndefined
        then put p5 ''imgapiPeers'' (lookup ps2 ''imgapiPeers'') else p5) = Inr (payload, ps3)"
    by (rule build_payload_stages)
  have keep3: "\<forall>k. k \<notin> {''internal_metadata'', ''payload''}
      \<longrightarrow> lookup (params job') k = lookup ps2 k"
    using nfs_metadata_keeps(2) [OF n] job' by (simp add: lookup_def map_of_put)
  have pl: "lookup (params job') ''payload'' = JObj payload"
    using job' by (simp add: lookup_put)
  from brand have brand': "lookup ps2 ''brand'' =
       (if lookup obj ''type'' = JStr ''lx-dataset'' then JStr ''lx''
        else lookup (params job) ''brand'')"
    by (simp add: ps1_def lookup_put)
  from img_job obj have "lookup (params job) ''image'' = JObj obj" by simp
  from that [OF this keep1 brand' bp [unfolded obj] keep3 pl] show ?thesis .
qed

lemma build_payload_final:
  assumes "build_payload jp js nfs ps img = Inr (payload, ps3)"
  obtains want nics rs routes where
    "wantResolvers ps = Inr want"
    "for_elems (lookup ps ''nics'') = Inr nics"
    "collect nics ([], []) = Inr (rs, routes)"
    "map_of payload ''archive_on_delete'' = Some (JBool True)"
    "map_of payload ''resolvers'' =
       (if want \<and> \<not> truthy (lookup ps ''resolvers'') then Some (JArr rs)
        else if lookup ps ''resolvers'' = JUndefined then None
        else Some (lookup ps ''resolvers''))"
    "map_of payload ''routes'' = (if routes \<noteq> [] then Some (JObj routes) else None)"
    "js_includes hvm_brands (lookup ps ''brand'')
       \<longrightarrow> map_of payload ''disks'' = Some (lookup ps ''disks'') \<and> map_of payload ''quota'' = None"
    "\<not> js_includes hvm_brands (lookup ps ''brand'')
       \<longrightarrow> map_of payload ''image_uuid'' = Some (lookup ps ''image_uuid'')
         \<and> (lookup ps ''filesystems'' \<noteq> JUndefined
              \<longrightarrow> map_of payload ''filesystems'' = Some (lookup ps ''filesystems''))
         \<and> map_of payload ''quota'' =
              (if lookup ps ''quota'' = JUndefined then None else Some (lookup ps ''quota''))"
proof -
  from assms obtain want nics rs routes p4 p5 where
    w: "wantResolvers ps = Inr want" and f: "for_elems (lookup ps ''nics'') = Inr nics"
    and c: "collect nics ([], []) = Inr (rs, routes)"
    and a4: "map_of p4 ''archive_on_delete'' = Some (JBool True)"
    and r4: "map_of p4 ''resolvers'' =
       (if want \<and> \<not> truthy (lookup ps ''resolvers'') then Some (JArr rs)
        else if lookup ps ''resolvers'' = JUndefined then None
        else Some (lookup ps ''resolvers''))"
    and t4: "map_of p4 ''routes'' = (if routes \<noteq> [] then Some (JObj routes) else None)"
    and q4: "map_of p4 ''quota'' =
       (if lookup ps ''quota'' = JUndefined then None else Some (lookup ps ''quota''))"
    and b: "brand_fields ps img p4 = Inr p5"
    and n: "nfs_metadata jp js nfs ps
       (if lookup ps ''imgapiPeers'' \<noteq> JUndefined
        then put p5 ''imgapiPeers'' (lookup ps ''imgapiPeers'') else p5) = Inr (payload, ps3)"
    by (rule build_payload_stages)
  have last: "\<And>k. k \<noteq> ''internal_metadata'' \<Longrightarrow> k \<noteq> ''imgapiPeers''
      \<Longrightarrow> map_of payload k = map_of p5 k"
    using nfs_metadata_keeps(1) [OF n] by (simp add: map_of_put split: if_splits)
  have both: "\<And>k. k \<notin> {''disks'', ''disk_driver'', ''nic_driver'', ''cpu_type'',
        ''flexible_disk_size'', ''quota'', ''image_uuid'', ''filesystems''}
      \<Longrightarrow> map_of p5 k = map_of p4 k"
    using brand_fields_hvm(3) [OF b] brand_fields_zone(3) [OF b]
    by (cases "js_includes hvm_brands (lookup ps ''brand'')") auto
  have a: "map_of payload ''archive_on_delete'' = Some (JBool True)"
    using last [of "''archive_on_delete''"] both [of "''archive_on_delete''"] a4 by simp
  have r: "map_of payload ''resolvers'' =
       (if want \<and> \<not> truthy (lookup ps ''resolvers'') then Some (JArr rs)
        else if lookup ps ''resolvers'' = JUndefined then None
        else Some (lookup ps ''resolvers''))"
    using last [of "''resolvers''"] both [of "''resolvers''"] r4 by simp
  have t: "map_of payload ''routes'' = (if routes \<noteq> [] then Some (JObj routes) else None)"
    using last [of "''routes''"] both [of "''routes''"] t4 by simp
  have h: "js_includes hvm_brands (lookup ps ''brand'')
       \<longrightarrow> map_of payload ''disks'' = Some (lookup ps ''disks'') \<and> map_of payload ''quota'' = None"
    using last [of "''disks''"] last [of "''quota''"] brand_fields_hvm(1,2) [OF b] by simp
  have z: "\<not> js_includes hvm_brands (lookup ps ''brand'')
       \<longrightarrow> map_of payload ''image_uuid'' = Some (lookup ps ''image_uuid'')
         \<and> (lookup ps ''filesystems'' \<noteq> JUndefined
              \<longrightarrow> map_of payload ''filesystems'' = Some (lookup ps ''filesystems''))
         \<and> map_of payload ''quota'' =
              (if lookup ps ''quota'' = JUndefined then None else Some (lookup ps ''quota''))"
    using last [of "''image_uuid''"] last [of "''filesystems''"] last [of "''quota''"]
      brand_fields_zone(1,2) [OF b] brand_fields_zone(3) [OF b, of "''quota''"] q4
    by simp
  from that [OF w f c a r t h z] show ?thesis .
qed
lemma wantResolvers_Inr:
  "wantResolvers ps = Inr want
   \<Longrightarrow> want = (get (lookup ps ''internal_metadata'') ''set_resolvers'' \<noteq> Inr (JBool False))"
  by (cases "lookup ps ''internal_metadata''")
     (auto simp: wantResolvers_def Let_def bind_Inr)

lemma ensurePayload_image:
  assumes "ensurePayload job = Inr p"
  shows "js_includes hvm_brands (lookup (params job) ''brand'')
         \<Longrightarrow> \<exists>disk. index0 (lookup (params job) ''disks'') = Inr disk
               \<and> get disk ''image_uuid'' = Inr (lookup p ''image_uuid'')"
    and "\<not> js_includes hvm_brands (lookup (params job) ''brand'')
         \<Longrightarrow> lookup p ''image_uuid'' = lookup (params job) ''image_uuid''"
  using assms
  by (auto simp: ensurePayload_def bind_Inr lookup_put split: if_splits)
     (auto simp: lookup_def)

text \<open>
  The payload by brand, on every successful run. \<open>preparePayload\<close> first replaces
  the brand by \<open>lx\<close> when the image's type is \<open>lx-dataset\<close>, and branches on the
  brand after that. When that brand is bhyve or kvm, the payload's \<open>disks\<close> is the
  job's \<open>disks\<close> and the payload has no \<open>quota\<close> key. For every other brand the
  payload's \<open>image_uuid\<close> is the job's \<open>image_uuid\<close> (\<open>undefined\<close> when the job has
  none), with \<open>filesystems\<close> when the job gives them and the job's \<open>quota\<close> when
  the job gives one. \<open>ensureImage\<close>, which runs before, sends \<open>disks[0].image_uuid\<close>
  when the job's brand is bhyve or kvm and the job's \<open>image_uuid\<close> otherwise.
\<close>

lemma payload_by_brand:
  "(preparePayload jp js job = (Inr msg, job')
    \<longrightarrow> (\<exists>payload.
          lookup (params job') ''payload'' = JObj payload
          \<and> lookup (params job') ''brand'' =
              (if get (lookup (params job) ''image'') ''type'' = Inr (JStr ''lx-dataset'')
               then JStr ''lx'' else lookup (params job) ''brand'')
          \<and> (js_includes hvm_brands (lookup (params job') ''brand'')
              \<longrightarrow> map_of payload ''disks'' = Some (lookup (params job) ''disks'')
                \<and> map_of payload ''quota'' = None)
          \<and> (\<not> js_includes hvm_brands (lookup (params job') ''brand'')
              \<longrightarrow> map_of payload ''image_uuid'' = Some (lookup (params job) ''image_uuid'')
                \<and> (lookup (params job) ''filesystems'' \<noteq> JUndefined
                    \<longrightarrow> map_of payload ''filesystems'' = Some (lookup (params job) ''filesystems''))
                \<and> (lookup (params job) ''quota'' \<noteq> JUndefined
                    \<longrightarrow> map_of payload ''quota'' = Some (lookup (params job) ''quota'')))))
   \<and> (ensurePayload job = Inr p
    \<longrightarrow> (js_includes hvm_brands (lookup (params job) ''brand'')
          \<longrightarrow> (\<exists>disk. index0 (lookup (params job) ''disks'') = Inr disk
                \<and> get disk ''image_uuid'' = Inr (lookup p ''image_uuid'')))
        \<and> (\<not> js_includes hvm_brands (lookup (params job) ''brand'')
          \<longrightarrow> lookup p ''image_uuid'' = lookup (params job) ''image_uuid''))"
proof (intro conjI impI)
  assume run: "preparePayload jp js job = (Inr msg, job')"
  then obtain ps2 payload ps3 obj where
    img: "lookup (params job) ''image'' = JObj obj"
    and keep: "\<forall>k. k \<notin> {''kernel_version'', ''brand'', ''jobid''}
        \<longrightarrow> lookup ps2 k = lookup (params job) k"
    and brand: "lookup ps2 ''brand'' =
       (if lookup obj ''type'' = JStr ''lx-dataset'' then JStr ''lx''
        else lookup (params job) ''brand'')"
    and bp: "build_payload jp js (nfsVolumesInternalMetadata job) ps2 (JObj obj) = Inr (payload, ps3)"
    and keep': "\<forall>k. k \<notin> {''internal_metadata'', ''payload''}
        \<longrightarrow> lookup (params job') k = lookup ps2 k"
    and pl: "lookup (params job') ''payload'' = JObj payload"
    by (rule preparePayload_stages)
  from bp obtain
    h: "js_includes hvm_brands (lookup ps2 ''brand'')
       \<longrightarrow> map_of payload ''disks'' = Some (lookup ps2 ''disks'') \<and> map_of payload ''quota'' = None"
    and z: "\<not> js_includes hvm_brands (lookup ps2 ''brand'')
       \<longrightarrow> map_of payload ''image_uuid'' = Some (lookup ps2 ''image_uuid'')
         \<and> (lookup ps2 ''filesystems'' \<noteq> JUndefined
              \<longrightarrow> map_of payload ''filesystems'' = Some (lookup ps2 ''filesystems''))
         \<and> map_of payload ''quota'' =
              (if lookup ps2 ''quota'' = JUndefined then None else Some (lookup ps2 ''quota''))"
    by (rule build_payload_final)
  have b': "lookup (params job') ''brand'' = lookup ps2 ''brand''"
    using keep' by simp
  have same: "lookup ps2 ''disks'' = lookup (params job) ''disks''"
    "lookup ps2 ''image_uuid'' = lookup (params job) ''image_uuid''"
    "lookup ps2 ''filesystems'' = lookup (params job) ''filesystems''"
    "lookup ps2 ''quota'' = lookup (params job) ''quota''"
    using keep by simp_all
  have "lookup (params job') ''brand'' =
      (if get (lookup (params job) ''image'') ''type'' = Inr (JStr ''lx-dataset'')
       then JStr ''lx'' else lookup (params job) ''brand'')"
    using b' brand img by simp
  moreover have "js_includes hvm_brands (lookup (params job') ''brand'')
      \<longrightarrow> map_of payload ''disks'' = Some (lookup (params job) ''disks'')
        \<and> map_of payload ''quota'' = None"
    using h b' same by simp
  moreover have "\<not> js_includes hvm_brands (lookup (params job') ''brand'')
      \<longrightarrow> map_of payload ''image_uuid'' = Some (lookup (params job) ''image_uuid'')
        \<and> (lookup (params job) ''filesystems'' \<noteq> JUndefined
            \<longrightarrow> map_of payload ''filesystems'' = Some (lookup (params job) ''filesystems''))
        \<and> (lookup (params job) ''quota'' \<noteq> JUndefined
            \<longrightarrow> map_of payload ''quota'' = Some (lookup (params job) ''quota''))"
    using z b' same by simp
  ultimately show "\<exists>payload.
          lookup (params job') ''payload'' = JObj payload
          \<and> lookup (params job') ''brand'' =
              (if get (lookup (params job) ''image'') ''type'' = Inr (JStr ''lx-dataset'')
               then JStr ''lx'' else lookup (params job) ''brand'')
          \<and> (js_includes hvm_brands (lookup (params job') ''brand'')
              \<longrightarrow> map_of payload ''disks'' = Some (lookup (params job) ''disks'')
                \<and> map_of payload ''quota'' = None)
          \<and> (\<not> js_includes hvm_brands (lookup (params job') ''brand'')
              \<longrightarrow> map_of payload ''image_uuid'' = Some (lookup (params job) ''image_uuid'')
                \<and> (lookup (params job) ''filesystems'' \<noteq> JUndefined
                    \<longrightarrow> map_of payload ''filesystems'' = Some (lookup (params job) ''filesystems''))
                \<and> (lookup (params job) ''quota'' \<noteq> JUndefined
                    \<longrightarrow> map_of payload ''quota'' = Some (lookup (params job) ''quota'')))"
    using pl by blast
next
  assume e: "ensurePayload job = Inr p" and b: "js_includes hvm_brands (lookup (params job) ''brand'')"
  from ensurePayload_image(1) [OF e b]
  show "\<exists>disk. index0 (lookup (params job) ''disks'') = Inr disk
                \<and> get disk ''image_uuid'' = Inr (lookup p ''image_uuid'')" .
next
  assume e: "ensurePayload job = Inr p"
    and b: "\<not> js_includes hvm_brands (lookup (params job) ''brand'')"
  from ensurePayload_image(2) [OF e b]
  show "lookup p ''image_uuid'' = lookup (params job) ''image_uuid''" .
qed

text \<open>
  C7. When \<open>preparePayload\<close> succeeds, the payload has \<open>archive_on_delete = true\<close>.
  When \<open>internal_metadata.set_resolvers\<close> is the boolean \<open>false\<close>, the payload's
  \<open>resolvers\<close> are what the caller gave, or absent. Otherwise the caller's resolvers
  are kept when they are truthy, and when the caller gave none the payload's
  \<open>resolvers\<close> are the resolvers of the NICs in NIC order, each at its first
  occurrence (for resolvers that are primitive values, as addresses are). The
  payload's \<open>routes\<close> hold, for every key, the value of the first NIC that has the
  key; the payload has no \<open>routes\<close> when no NIC has a route.
\<close>

theorem payload_resolvers_and_routes:
  "preparePayload jp js job = (Inr msg, job')
   \<longrightarrow> (\<exists>payload nics routes.
         lookup (params job') ''payload'' = JObj payload
         \<and> for_elems (lookup (params job) ''nics'') = Inr nics
         \<and> map_of payload ''archive_on_delete'' = Some (JBool True)
         \<and> (get (lookup (params job) ''internal_metadata'') ''set_resolvers'' = Inr (JBool False)
            \<longrightarrow> map_of payload ''resolvers'' =
                  (if lookup (params job) ''resolvers'' = JUndefined then None
                   else Some (lookup (params job) ''resolvers'')))
         \<and> (get (lookup (params job) ''internal_metadata'') ''set_resolvers'' \<noteq> Inr (JBool False)
            \<longrightarrow> (truthy (lookup (params job) ''resolvers'')
                  \<longrightarrow> map_of payload ''resolvers'' = Some (lookup (params job) ''resolvers''))
              \<and> (\<not> truthy (lookup (params job) ''resolvers'')
                    \<and> list_all primitive (concat (map nic_resolvers nics))
                  \<longrightarrow> map_of payload ''resolvers'' =
                        Some (JArr (first_occurrences (concat (map nic_resolvers nics))))))
         \<and> map_of routes = map_of (concat (map nic_routes nics))
         \<and> map_of payload ''routes'' = (if routes = [] then None else Some (JObj routes)))"
proof
  assume run: "preparePayload jp js job = (Inr msg, job')"
  then obtain ps2 payload ps3 obj where
    keep: "\<forall>k. k \<notin> {''kernel_version'', ''brand'', ''jobid''}
        \<longrightarrow> lookup ps2 k = lookup (params job) k"
    and bp: "build_payload jp js (nfsVolumesInternalMetadata job) ps2 (JObj obj) = Inr (payload, ps3)"
    and pl: "lookup (params job') ''payload'' = JObj payload"
    by (rule preparePayload_stages)
  from bp obtain want nics rs routes where
    w: "wantResolvers ps2 = Inr want"
    and f: "for_elems (lookup ps2 ''nics'') = Inr nics"
    and c: "collect nics ([], []) = Inr (rs, routes)"
    and a: "map_of payload ''archive_on_delete'' = Some (JBool True)"
    and r: "map_of payload ''resolvers'' =
       (if want \<and> \<not> truthy (lookup ps2 ''resolvers'') then Some (JArr rs)
        else if lookup ps2 ''resolvers'' = JUndefined then None
        else Some (lookup ps2 ''resolvers''))"
    and t: "map_of payload ''routes'' = (if routes \<noteq> [] then Some (JObj routes) else None)"
    by (rule build_payload_final)
  have same: "lookup ps2 ''nics'' = lookup (params job) ''nics''"
    "lookup ps2 ''resolvers'' = lookup (params job) ''resolvers''"
    "lookup ps2 ''internal_metadata'' = lookup (params job) ''internal_metadata''"
    using keep by simp_all
  from wantResolvers_Inr [OF w] same
  have want: "want = (get (lookup (params job) ''internal_metadata'') ''set_resolvers''
      \<noteq> Inr (JBool False))"
    by simp
  from collect_result [OF c]
  have rs: "rs = add_resolvers [] (concat (map nic_resolvers nics))"
    and routes: "map_of routes = map_of (concat (map nic_routes nics))"
    by simp_all
  have first: "list_all primitive (concat (map nic_resolvers nics))
      \<Longrightarrow> rs = first_occurrences (concat (map nic_resolvers nics))"
    using add_resolvers_first_occurrences [of "[]" "concat (map nic_resolvers nics)"] rs by simp
  have undef: "\<not> truthy (lookup (params job) ''resolvers'')
      \<or> lookup (params job) ''resolvers'' \<noteq> JUndefined"
    by (cases "lookup (params job) ''resolvers''") auto
  have f': "for_elems (lookup (params job) ''nics'') = Inr nics"
    using f same by simp
  have off: "get (lookup (params job) ''internal_metadata'') ''set_resolvers'' = Inr (JBool False)
            \<longrightarrow> map_of payload ''resolvers'' =
                  (if lookup (params job) ''resolvers'' = JUndefined then None
                   else Some (lookup (params job) ''resolvers''))"
    using r want same by simp
  have on: "get (lookup (params job) ''internal_metadata'') ''set_resolvers'' \<noteq> Inr (JBool False)
            \<longrightarrow> (truthy (lookup (params job) ''resolvers'')
                  \<longrightarrow> map_of payload ''resolvers'' = Some (lookup (params job) ''resolvers''))
              \<and> (\<not> truthy (lookup (params job) ''resolvers'')
                    \<and> list_all primitive (concat (map nic_resolvers nics))
                  \<longrightarrow> map_of payload ''resolvers'' =
                        Some (JArr (first_occurrences (concat (map nic_resolvers nics)))))"
    using r want same first by auto
  have t': "map_of payload ''routes'' = (if routes = [] then None else Some (JObj routes))"
    using t by simp
  show "\<exists>payload nics routes.
         lookup (params job') ''payload'' = JObj payload
         \<and> for_elems (lookup (params job) ''nics'') = Inr nics
         \<and> map_of payload ''archive_on_delete'' = Some (JBool True)
         \<and> (get (lookup (params job) ''internal_metadata'') ''set_resolvers'' = Inr (JBool False)
            \<longrightarrow> map_of payload ''resolvers'' =
                  (if lookup (params job) ''resolvers'' = JUndefined then None
                   else Some (lookup (params job) ''resolvers'')))
         \<and> (get (lookup (params job) ''internal_metadata'') ''set_resolvers'' \<noteq> Inr (JBool False)
            \<longrightarrow> (truthy (lookup (params job) ''resolvers'')
                  \<longrightarrow> map_of payload ''resolvers'' = Some (lookup (params job) ''resolvers''))
              \<and> (\<not> truthy (lookup (params job) ''resolvers'')
                    \<and> list_all primitive (concat (map nic_resolvers nics))
                  \<longrightarrow> map_of payload ''resolvers'' =
                        Some (JArr (first_occurrences (concat (map nic_resolvers nics))))))
         \<and> map_of routes = map_of (concat (map nic_routes nics))
         \<and> map_of payload ''routes'' = (if routes = [] then None else Some (JObj routes))"
    apply (rule exI [where x = payload])
    apply (rule exI [where x = nics])
    apply (rule exI [where x = routes])
    apply (intro conjI)
          apply (rule pl)
         apply (rule f')
        apply (rule a)
       apply (rule off)
      apply (rule on)
     apply (rule routes)
    apply (rule t')
    done
qed

lemma kvm_job_run:
  "preparePayload json_parse_fails json_stringify_text kvm_job =
     (Inr ''Payload prepared successfully'',
      snd (preparePayload json_parse_fails json_stringify_text kvm_job))"
  by code_simp

lemma two_nics_job_run:
  "preparePayload json_parse_fails json_stringify_text two_nics_job =
     (Inr ''Payload prepared successfully'',
      snd (preparePayload json_parse_fails json_stringify_text two_nics_job))"
  by code_simp

lemma no_resolvers_job_run:
  "preparePayload json_parse_fails json_stringify_text no_resolvers_job =
     (Inr ''Payload prepared successfully'',
      snd (preparePayload json_parse_fails json_stringify_text no_resolvers_job))"
  by code_simp

lemma explicit_resolvers_job_run:
  "preparePayload json_parse_fails json_stringify_text explicit_resolvers_job =
     (Inr ''Payload prepared successfully'',
      snd (preparePayload json_parse_fails json_stringify_text explicit_resolvers_job))"
  by code_simp

lemma payload_by_brand_at_kvm_and_zone:
  "fst (preparePayload json_parse_fails json_stringify_text kvm_job) =
     Inr ''Payload prepared successfully''
   \<and> js_includes hvm_brands
       (lookup (params (snd (preparePayload json_parse_fails json_stringify_text kvm_job)))
          ''brand'')
   \<and> (\<exists>payload.
        lookup (params (snd (preparePayload json_parse_fails json_stringify_text kvm_job)))
          ''payload'' = JObj payload
        \<and> map_of payload ''disks'' = Some (lookup (params kvm_job) ''disks'')
        \<and> map_of payload ''quota'' = None)
   \<and> ensurePayload kvm_job = Inr [(''image_uuid'', JStr ''img-2'')]
   \<and> (\<exists>disk. index0 (lookup (params kvm_job) ''disks'') = Inr disk
        \<and> get disk ''image_uuid'' = Inr (JStr ''img-2''))
   \<and> fst (preparePayload json_parse_fails json_stringify_text two_nics_job) =
     Inr ''Payload prepared successfully''
   \<and> \<not> js_includes hvm_brands
       (lookup (params (snd (preparePayload json_parse_fails json_stringify_text two_nics_job)))
          ''brand'')
   \<and> lookup (params two_nics_job) ''filesystems'' \<noteq> JUndefined
   \<and> lookup (params two_nics_job) ''quota'' \<noteq> JUndefined
   \<and> (\<exists>payload.
        lookup (params (snd (preparePayload json_parse_fails json_stringify_text two_nics_job)))
          ''payload'' = JObj payload
        \<and> map_of payload ''image_uuid'' = Some (JStr ''img-1'')
        \<and> map_of payload ''filesystems'' = Some (lookup (params two_nics_job) ''filesystems'')
        \<and> map_of payload ''quota'' = Some (JNum 10))
   \<and> ensurePayload two_nics_job = Inr [(''image_uuid'', JStr ''img-1'')]
   \<and> lookup [(''image_uuid'', JStr ''img-1'')] ''image_uuid''
       = lookup (params two_nics_job) ''image_uuid''"
proof -
  let ?kvm = "snd (preparePayload json_parse_fails json_stringify_text kvm_job)"
  let ?zone = "snd (preparePayload json_parse_fails json_stringify_text two_nics_job)"
  have hvm: "js_includes hvm_brands (lookup (params ?kvm) ''brand'')"
    by code_simp
  have hvm0: "js_includes hvm_brands (lookup (params kvm_job) ''brand'')"
    by code_simp
  have ens: "ensurePayload kvm_job = Inr [(''image_uuid'', JStr ''img-2'')]"
    by code_simp
  have zone: "\<not> js_includes hvm_brands (lookup (params ?zone) ''brand'')"
    by code_simp
  have zone0: "\<not> js_includes hvm_brands (lookup (params two_nics_job) ''brand'')"
    by code_simp
  have ens0: "ensurePayload two_nics_job = Inr [(''image_uuid'', JStr ''img-1'')]"
    by code_simp
  have given: "lookup (params two_nics_job) ''image_uuid'' = JStr ''img-1''"
    "lookup (params two_nics_job) ''quota'' = JNum 10"
    "lookup [(''image_uuid'', JStr ''img-2'')] ''image_uuid'' = JStr ''img-2''"
    by code_simp+
  have fs: "lookup (params two_nics_job) ''filesystems'' \<noteq> JUndefined"
    and qt: "lookup (params two_nics_job) ''quota'' \<noteq> JUndefined"
    by code_simp+
  from payload_by_brand [where jp = json_parse_fails and js = json_stringify_text
      and job = kvm_job and job' = ?kvm and msg = "''Payload prepared successfully''",
      THEN conjunct1, THEN mp, OF kvm_job_run] hvm
  have k: "\<exists>payload. lookup (params ?kvm) ''payload'' = JObj payload
        \<and> map_of payload ''disks'' = Some (lookup (params kvm_job) ''disks'')
        \<and> map_of payload ''quota'' = None"
    by blast
  from payload_by_brand [where job = kvm_job and p = "[(''image_uuid'', JStr ''img-2'')]",
      THEN conjunct2, THEN mp, OF ens] hvm0 given(3)
  have e: "\<exists>disk. index0 (lookup (params kvm_job) ''disks'') = Inr disk
        \<and> get disk ''image_uuid'' = Inr (JStr ''img-2'')"
    by simp
  from payload_by_brand [where jp = json_parse_fails and js = json_stringify_text
      and job = two_nics_job and job' = ?zone and msg = "''Payload prepared successfully''",
      THEN conjunct1, THEN mp, OF two_nics_job_run] zone given(1,2) fs
  have z: "\<exists>payload. lookup (params ?zone) ''payload'' = JObj payload
        \<and> map_of payload ''image_uuid'' = Some (JStr ''img-1'')
        \<and> map_of payload ''filesystems'' = Some (lookup (params two_nics_job) ''filesystems'')
        \<and> map_of payload ''quota'' = Some (JNum 10)"
    by auto
  from payload_by_brand [where job = two_nics_job and p = "[(''image_uuid'', JStr ''img-1'')]",
      THEN conjunct2, THEN mp, OF ens0] zone0
  have e0: "lookup [(''image_uuid'', JStr ''img-1'')] ''image_uuid''
       = lookup (params two_nics_job) ''image_uuid''"
    by simp
  have r1: "fst (preparePayload json_parse_fails json_stringify_text kvm_job) =
     Inr ''Payload prepared successfully''"
    using kvm_job_run by (metis fst_conv)
  have r2: "fst (preparePayload json_parse_fails json_stringify_text two_nics_job) =
     Inr ''Payload prepared successfully''"
    using two_nics_job_run by (metis fst_conv)
  show ?thesis
    by (intro conjI) (rule r1 hvm k ens e r2 zone fs qt z ens0 e0)+
qed

lemma ensurePayload_disks_given:
  assumes "ensurePayload job = Inr p"
    and "js_includes hvm_brands (lookup (params job) ''brand'')"
  shows "lookup (params job) ''disks'' \<noteq> JUndefined"
    and "lookup (params job) ''disks'' \<noteq> JNull"
  using ensurePayload_image(1) [OF assms] by auto

text \<open>
  C6. A provision job whose brand is kvm and whose image is an lx-dataset, with its
  \<open>disks\<close> and a \<open>quota\<close>. \<open>ensureImage\<close> reads the brand as kvm and asks for
  \<open>disks[0].image_uuid\<close>. \<open>preparePayload\<close>, which runs later in the same chain,
  replaces the brand by \<open>lx\<close> and builds the payload of a zone: it has no \<open>disks\<close>
  key, it keeps the job's \<open>quota\<close>, and its \<open>image_uuid\<close> is \<open>undefined\<close>, since the
  job names its image in \<open>disks\<close>.
\<close>

theorem kvm_job_with_lx_image_payload:
  "js_includes hvm_brands (lookup (params kvm_lx_job) ''brand'')
   \<and> ensurePayload kvm_lx_job = Inr [(''image_uuid'', JStr ''img-3'')]
   \<and> fst (preparePayload json_parse_fails json_stringify_text kvm_lx_job) =
       Inr ''Payload prepared successfully''
   \<and> get (lookup (params (snd (preparePayload json_parse_fails json_stringify_text kvm_lx_job)))
          ''payload'') ''brand'' = Inr (JStr ''lx'')
   \<and> hasOwnProperty
         (lookup (params (snd (preparePayload json_parse_fails json_stringify_text kvm_lx_job)))
          ''payload'') ''disks'' = Inr False
   \<and> get (lookup (params (snd (preparePayload json_parse_fails json_stringify_text kvm_lx_job)))
          ''payload'') ''quota'' = Inr (JNum 10)
   \<and> hasOwnProperty
         (lookup (params (snd (preparePayload json_parse_fails json_stringify_text kvm_lx_job)))
          ''payload'') ''image_uuid'' = Inr True
   \<and> get (lookup (params (snd (preparePayload json_parse_fails json_stringify_text kvm_lx_job)))
          ''payload'') ''image_uuid'' = Inr JUndefined"
  by code_simp

theorem payload_resolvers_and_routes_witness:
  "fst (preparePayload json_parse_fails json_stringify_text two_nics_job) =
     Inr ''Payload prepared successfully''
   \<and> get (lookup (params two_nics_job) ''internal_metadata'') ''set_resolvers''
       \<noteq> Inr (JBool False)
   \<and> \<not> truthy (lookup (params two_nics_job) ''resolvers'')
   \<and> list_all primitive (concat (map nic_resolvers [nic_admin, nic_external]))
   \<and> (\<exists>payload routes.
        lookup (params (snd (preparePayload json_parse_fails json_stringify_text two_nics_job)))
          ''payload'' = JObj payload
        \<and> map_of payload ''archive_on_delete'' = Some (JBool True)
        \<and> map_of payload ''resolvers'' =
            Some (JArr [JStr ''8.8.8.8'', JStr ''1.1.1.1'', JStr ''9.9.9.9''])
        \<and> map_of payload ''routes'' = Some (JObj routes)
        \<and> map_of routes ''10.0.0.0/8'' = Some (JStr ''10.0.0.1'')
        \<and> map_of routes ''192.168.0.0/16'' = Some (JStr ''192.168.0.2''))
   \<and> get (lookup (params no_resolvers_job) ''internal_metadata'') ''set_resolvers''
       = Inr (JBool False)
   \<and> (\<exists>payload.
        lookup (params (snd (preparePayload json_parse_fails json_stringify_text
           no_resolvers_job))) ''payload'' = JObj payload
        \<and> map_of payload ''archive_on_delete'' = Some (JBool True)
        \<and> map_of payload ''resolvers'' = None)
   \<and> get (lookup (params explicit_resolvers_job) ''internal_metadata'') ''set_resolvers''
       \<noteq> Inr (JBool False)
   \<and> truthy (lookup (params explicit_resolvers_job) ''resolvers'')
   \<and> (\<exists>payload.
        lookup (params (snd (preparePayload json_parse_fails json_stringify_text
           explicit_resolvers_job))) ''payload'' = JObj payload
        \<and> map_of payload ''resolvers'' = Some (JArr [JStr ''4.4.4.4'']))"
proof -
  let ?two = "snd (preparePayload json_parse_fails json_stringify_text two_nics_job)"
  let ?off = "snd (preparePayload json_parse_fails json_stringify_text no_resolvers_job)"
  let ?own = "snd (preparePayload json_parse_fails json_stringify_text explicit_resolvers_job)"
  have on: "get (lookup (params two_nics_job) ''internal_metadata'') ''set_resolvers''
       \<noteq> Inr (JBool False)"
    by code_simp
  have none: "\<not> truthy (lookup (params two_nics_job) ''resolvers'')"
    by code_simp
  have prim: "list_all primitive (concat (map nic_resolvers [nic_admin, nic_external]))"
    by code_simp
  have firsts: "first_occurrences (concat (map nic_resolvers [nic_admin, nic_external])) =
      [JStr ''8.8.8.8'', JStr ''1.1.1.1'', JStr ''9.9.9.9'']"
    by code_simp
  have nics2: "for_elems (lookup (params two_nics_job) ''nics'') = Inr [nic_admin, nic_external]"
    by code_simp
  have route1: "map_of (concat (map nic_routes [nic_admin, nic_external])) ''10.0.0.0/8''
      = Some (JStr ''10.0.0.1'')"
    by code_simp
  have route2: "map_of (concat (map nic_routes [nic_admin, nic_external])) ''192.168.0.0/16''
      = Some (JStr ''192.168.0.2'')"
    by code_simp
  from payload_resolvers_and_routes [where jp = json_parse_fails and js = json_stringify_text
      and job = two_nics_job and job' = ?two and msg = "''Payload prepared successfully''",
      THEN mp, OF two_nics_job_run]
  obtain payload nics routes where
    pl: "lookup (params ?two) ''payload'' = JObj payload"
    and f: "for_elems (lookup (params two_nics_job) ''nics'') = Inr nics"
    and a: "map_of payload ''archive_on_delete'' = Some (JBool True)"
    and r: "get (lookup (params two_nics_job) ''internal_metadata'') ''set_resolvers''
              \<noteq> Inr (JBool False)
            \<longrightarrow> (truthy (lookup (params two_nics_job) ''resolvers'')
                  \<longrightarrow> map_of payload ''resolvers'' = Some (lookup (params two_nics_job) ''resolvers''))
              \<and> (\<not> truthy (lookup (params two_nics_job) ''resolvers'')
                    \<and> list_all primitive (concat (map nic_resolvers nics))
                  \<longrightarrow> map_of payload ''resolvers'' =
                        Some (JArr (first_occurrences (concat (map nic_resolvers nics)))))"
    and m: "map_of routes = map_of (concat (map nic_routes nics))"
    and t: "map_of payload ''routes'' = (if routes = [] then None else Some (JObj routes))"
    by blast
  from f nics2 have nics: "nics = [nic_admin, nic_external]" by simp
  from r on none prim firsts nics
  have res: "map_of payload ''resolvers'' =
      Some (JArr [JStr ''8.8.8.8'', JStr ''1.1.1.1'', JStr ''9.9.9.9''])"
    by simp
  from m nics route1 route2
  have m1: "map_of routes ''10.0.0.0/8'' = Some (JStr ''10.0.0.1'')"
    and m2: "map_of routes ''192.168.0.0/16'' = Some (JStr ''192.168.0.2'')"
    by simp_all
  from m1 have "routes \<noteq> []" by auto
  with t have rt: "map_of payload ''routes'' = Some (JObj routes)" by simp
  from pl a res rt m1 m2
  have two: "\<exists>payload routes.
        lookup (params ?two) ''payload'' = JObj payload
        \<and> map_of payload ''archive_on_delete'' = Some (JBool True)
        \<and> map_of payload ''resolvers'' =
            Some (JArr [JStr ''8.8.8.8'', JStr ''1.1.1.1'', JStr ''9.9.9.9''])
        \<and> map_of payload ''routes'' = Some (JObj routes)
        \<and> map_of routes ''10.0.0.0/8'' = Some (JStr ''10.0.0.1'')
        \<and> map_of routes ''192.168.0.0/16'' = Some (JStr ''192.168.0.2'')"
    by blast
  have off: "get (lookup (params no_resolvers_job) ''internal_metadata'') ''set_resolvers''
       = Inr (JBool False)"
    by code_simp
  have undef: "lookup (params no_resolvers_job) ''resolvers'' = JUndefined"
    by code_simp
  from payload_resolvers_and_routes [where jp = json_parse_fails and js = json_stringify_text
      and job = no_resolvers_job and job' = ?off and msg = "''Payload prepared successfully''",
      THEN mp, OF no_resolvers_job_run] off undef
  have no: "\<exists>payload. lookup (params ?off) ''payload'' = JObj payload
        \<and> map_of payload ''archive_on_delete'' = Some (JBool True)
        \<and> map_of payload ''resolvers'' = None"
    by auto
  have on': "get (lookup (params explicit_resolvers_job) ''internal_metadata'') ''set_resolvers''
       \<noteq> Inr (JBool False)"
    by code_simp
  have own: "truthy (lookup (params explicit_resolvers_job) ''resolvers'')"
    by code_simp
  have own_value: "lookup (params explicit_resolvers_job) ''resolvers'' = JArr [JStr ''4.4.4.4'']"
    by code_simp
  from payload_resolvers_and_routes [where jp = json_parse_fails and js = json_stringify_text
      and job = explicit_resolvers_job and job' = ?own
      and msg = "''Payload prepared successfully''",
      THEN mp, OF explicit_resolvers_job_run] on' own own_value
  have ex: "\<exists>payload. lookup (params ?own) ''payload'' = JObj payload
        \<and> map_of payload ''resolvers'' = Some (JArr [JStr ''4.4.4.4''])"
    by auto
  have r1: "fst (preparePayload json_parse_fails json_stringify_text two_nics_job) =
     Inr ''Payload prepared successfully''"
    using two_nics_job_run by (metis fst_conv)
  show ?thesis
    by (intro conjI) (rule r1 on none prim two off no on' own ex)+
qed

end
